theory Spec2Isabelle
  imports Complex_Main "HOL-Library.AList" "HOL-Library.Multiset"
begin

section \<open>Floating-point numbers\<close>

text \<open>
  The rewards of the drivers are Python floats (IEEE 754 binary64) and the parameters of the
  federated averaging are arrays of jax (binary32 by default). The programs are modelled for
  any arithmetic; this section gives the arithmetic of IEEE 754, used where a property is
  stated of the numbers themselves.

  A value is a finite number, an infinity or NaN; a finite value is given by the rational
  number it stands for, and the two zeros, equal in Python, are one value. \<open>round_to p emin
  emax\<close> rounds a rational number to the format with \<open>p\<close> bits of precision and exponents
  from \<open>emin\<close> to \<open>emax\<close>: to the nearest value, to the one with an even last bit in a tie,
  to an infinity beyond the largest finite value, with subnormal values below \<open>2 ^ emin\<close>.
\<close>

function bit_length :: "int \<Rightarrow> nat" where
  "bit_length n = (if n \<le> 0 then 0 else Suc (bit_length (n div 2)))"
  by pat_completeness auto
termination
  by (relation "measure nat") auto

declare bit_length.simps [simp del]

definition pow2 :: "int \<Rightarrow> rat" where
  "pow2 e = (if 0 \<le> e then 2 ^ nat e else 1 / 2 ^ nat (- e))"

text \<open>The exponent \<open>e\<close> with \<open>2 ^ e \<le> a < 2 ^ (e + 1)\<close>, for \<open>a > 0\<close>.\<close>

definition floor_log2 :: "rat \<Rightarrow> int" where
  "floor_log2 a =
     (case quotient_of a of (p, q) \<Rightarrow>
        let d = int (bit_length p) - int (bit_length q)
        in if pow2 d \<le> a then d else d - 1)"

definition round_half_even :: "rat \<Rightarrow> int" where
  "round_half_even q =
     (let f = \<lfloor>q\<rfloor>; d = q - of_int f
      in if d < 1 / 2 then f else if 1 / 2 < d then f + 1 else if even f then f else f + 1)"

datatype fpv = Fin rat | PInf | NInf | NaN

definition round_to :: "nat \<Rightarrow> int \<Rightarrow> int \<Rightarrow> rat \<Rightarrow> fpv" where
  "round_to p emin emax x =
     (if x = 0 then Fin 0
      else
        let a = \<bar>x\<bar>;
            e = max (floor_log2 a) emin;
            ulp = pow2 (e - (int p - 1));
            v = of_int (round_half_even (a / ulp)) * ulp
        in if pow2 (emax + 1) \<le> v then (if 0 < x then PInf else NInf)
           else Fin (if 0 < x then v else - v))"

text \<open>Addition and division of two values of a format.\<close>

fun fadd :: "nat \<Rightarrow> int \<Rightarrow> int \<Rightarrow> fpv \<Rightarrow> fpv \<Rightarrow> fpv" where
  "fadd p emin emax NaN y = NaN"
| "fadd p emin emax x NaN = NaN"
| "fadd p emin emax PInf NInf = NaN"
| "fadd p emin emax NInf PInf = NaN"
| "fadd p emin emax PInf y = PInf"
| "fadd p emin emax NInf y = NInf"
| "fadd p emin emax x PInf = PInf"
| "fadd p emin emax x NInf = NInf"
| "fadd p emin emax (Fin x) (Fin y) = round_to p emin emax (x + y)"

fun fdiv :: "nat \<Rightarrow> int \<Rightarrow> int \<Rightarrow> fpv \<Rightarrow> fpv \<Rightarrow> fpv" where
  "fdiv p emin emax NaN y = NaN"
| "fdiv p emin emax x NaN = NaN"
| "fdiv p emin emax (Fin x) (Fin y) =
     (if y = 0 then (if x = 0 then NaN else if 0 < x then PInf else NInf)
      else round_to p emin emax (x / y))"
| "fdiv p emin emax (Fin x) y = Fin 0"
| "fdiv p emin emax x (Fin y) =
     (if 0 \<le> y then x else (case x of PInf \<Rightarrow> NInf | NInf \<Rightarrow> PInf | z \<Rightarrow> z))"
| "fdiv p emin emax x y = NaN"


text \<open>Python's \<open>float\<close>: binary64, with \<open>0.\<close> and \<open>+\<close>.\<close>

datatype float64 = Float64 (the_fpv: fpv)

instantiation float64 :: "{zero,plus}"
begin

definition zero_float64 :: float64 where
  "zero_float64 = Float64 (Fin 0)"

definition plus_float64 :: "float64 \<Rightarrow> float64 \<Rightarrow> float64" where
  "plus_float64 x y = Float64 (fadd 53 (- 1022) 1023 (the_fpv x) (the_fpv y))"

instance ..

end

section \<open>The PPO driver (examples/reinforcement\_learning/ppo\_main.py)\<close>

text \<open>
  The environment (gymnasium) and the agent (\<open>PPOAgent\<close>) are objects of external
  libraries. Their joint state is a value of an arbitrary type \<open>'w\<close>, and each method the
  driver calls is a function that takes the state and returns the new one with its result.
  The driver's own state is the list \<open>episode_rewards\<close>; every call into the environment or
  the agent, and every line printed, is recorded in \<open>trace\<close> in the order the driver makes it.

  Rewards are values of any type with \<open>0\<close> and \<open>+\<close>: no law of arithmetic is assumed, so
  what is proved of the running sum holds for Python's floats as well.
\<close>

record ('s, 'a, 'r) Transition =
  state :: 's
  action :: 'a
  next_state :: 's
  reward :: 'r
  done_t :: int

datatype ('s, 'a, 'r) ppo_event =
    EnvReset 's
  | PredictAction 's 'a
  | EnvStep 'a 's 'r bool bool
  | Print nat 'r
  | AgentUpdate "('s, 'a, 'r) Transition list"
  | AgentTrain int
  | EnvClose

record ('w, 's, 'a, 'r) ppo_lib =
  ppo_env_reset :: "'w \<Rightarrow> 's \<times> 'w"
  ppo_env_step :: "'a \<Rightarrow> 'w \<Rightarrow> ('s \<times> 'r \<times> bool \<times> bool) \<times> 'w"
  ppo_predict_action :: "'s \<Rightarrow> 'w \<Rightarrow> 'a \<times> 'w"
  ppo_update :: "('s, 'a, 'r) Transition list \<Rightarrow> 'w \<Rightarrow> 'w"
  ppo_train :: "int \<Rightarrow> 'w \<Rightarrow> 'w"

record ('w, 's, 'a, 'r) ppo_st =
  world :: 'w
  trace :: "('s, 'a, 'r) ppo_event list"
  episode_rewards :: "'r list"

text \<open>
  The \<open>while True\<close> loop of one episode (lines 49 to 68). It ends only through the
  \<open>break\<close> under \<open>if terminated or truncated\<close>, so it may run forever: the first argument
  bounds the number of iterations, and \<open>None\<close> says that the bound was reached.
\<close>

fun ppo_while ::
  "nat \<Rightarrow> ('w, 's, 'a, 'r::{zero,plus}) ppo_lib \<Rightarrow> nat \<Rightarrow> 's \<Rightarrow> 'r \<Rightarrow>
   ('s, 'a, 'r) Transition list \<Rightarrow> ('w, 's, 'a, 'r) ppo_st \<Rightarrow> ('w, 's, 'a, 'r) ppo_st option"
where
  "ppo_while 0 L episode_idx s sum_rewards transitions st = None"
| "ppo_while (Suc fuel) L episode_idx s sum_rewards transitions st =
     (case ppo_predict_action L s (world st) of (a, w1) \<Rightarrow>
      case ppo_env_step L a w1 of ((s', r, terminated, truncated), w2) \<Rightarrow>
        let sum_rewards' = sum_rewards + r;
            transitions' = transitions @
              [\<lparr>state = s, action = a, next_state = s', reward = r,
                done_t = (if terminated then 1 else 0)\<rparr>];
            st1 = st\<lparr>world := w2,
                     trace := trace st @ [PredictAction s a, EnvStep a s' r terminated truncated]\<rparr>
        in if terminated \<or> truncated
           then Some (st1\<lparr>
                  world := ppo_train L 10 (ppo_update L transitions' w2),
                  trace := trace st1 @
                    [Print episode_idx sum_rewards', AgentUpdate transitions', AgentTrain 10],
                  episode_rewards := episode_rewards st1 @ [sum_rewards']\<rparr>)
           else ppo_while fuel L episode_idx s' sum_rewards' transitions' st1)"

text \<open>The body of \<open>for episode_idx in range(n_episodes)\<close> (lines 46 to 68).\<close>

definition ppo_episode ::
  "nat \<Rightarrow> ('w, 's, 'a, 'r::{zero,plus}) ppo_lib \<Rightarrow> nat \<Rightarrow> ('w, 's, 'a, 'r) ppo_st \<Rightarrow>
   ('w, 's, 'a, 'r) ppo_st option"
where
  "ppo_episode fuel L episode_idx st =
     (case ppo_env_reset L (world st) of (s, w0) \<Rightarrow>
        ppo_while fuel L episode_idx s 0 []
          (st\<lparr>world := w0, trace := trace st @ [EnvReset s]\<rparr>))"

text \<open>The \<open>for\<close> loop over the episodes (lines 44 to 68), then \<open>env.close()\<close>.\<close>

fun ppo_episodes ::
  "nat \<Rightarrow> ('w, 's, 'a, 'r::{zero,plus}) ppo_lib \<Rightarrow> nat list \<Rightarrow> ('w, 's, 'a, 'r) ppo_st \<Rightarrow>
   ('w, 's, 'a, 'r) ppo_st option"
where
  "ppo_episodes fuel L [] st = Some st"
| "ppo_episodes fuel L (episode_idx # rest) st =
     (case ppo_episode fuel L episode_idx st of
        None \<Rightarrow> None
      | Some st' \<Rightarrow> ppo_episodes fuel L rest st')"

definition ppo_main_loop ::
  "nat \<Rightarrow> ('w, 's, 'a, 'r::{zero,plus}) ppo_lib \<Rightarrow> int \<Rightarrow> 'w \<Rightarrow> ('w, 's, 'a, 'r) ppo_st option"
where
  "ppo_main_loop fuel L n_episodes w =
     (case ppo_episodes fuel L [0..<nat n_episodes]
             \<lparr>world = w, trace = [], episode_rewards = []\<rparr> of
        None \<Rightarrow> None
      | Some st \<Rightarrow> Some (st\<lparr>trace := trace st @ [EnvClose]\<rparr>))"


text \<open>One iteration of the loop as the trace shows it.\<close>

definition step_events ::
  "'s \<times> 'a \<times> 's \<times> 'r \<times> bool \<times> bool \<Rightarrow> ('s, 'a, 'r) ppo_event list" where
  "step_events x = (case x of (s, a, s', r, terminated, truncated) \<Rightarrow>
     [PredictAction s a, EnvStep a s' r terminated truncated])"

definition step_transition ::
  "'s \<times> 'a \<times> 's \<times> 'r \<times> bool \<times> bool \<Rightarrow> ('s, 'a, 'r) Transition" where
  "step_transition x = (case x of (s, a, s', r, terminated, truncated) \<Rightarrow>
     \<lparr>state = s, action = a, next_state = s', reward = r,
      done_t = (if terminated then 1 else 0)\<rparr>)"

definition step_ends :: "'s \<times> 'a \<times> 's \<times> 'r \<times> bool \<times> bool \<Rightarrow> bool" where
  "step_ends x = (case x of (s, a, s', r, terminated, truncated) \<Rightarrow> terminated \<or> truncated)"

definition step_reward :: "'s \<times> 'a \<times> 's \<times> 'r \<times> bool \<times> bool \<Rightarrow> 'r" where
  "step_reward x = (case x of (s, a, s', r, terminated, truncated) \<Rightarrow> r)"

text \<open>
  The calls of \<open>agent.predict_action\<close> and \<open>env.step\<close> as the libraries answer them, from
  the state \<open>s\<close> of the environment and the state \<open>w\<close> of the libraries, for \<open>n\<close>
  iterations whatever the steps report: each iteration with the state of the libraries
  after it.
\<close>

fun interaction ::
  "nat \<Rightarrow> ('w, 's, 'a, 'r) ppo_lib \<Rightarrow> 's \<Rightarrow> 'w \<Rightarrow>
   (('s \<times> 'a \<times> 's \<times> 'r \<times> bool \<times> bool) \<times> 'w) list"
where
  "interaction 0 L s w = []"
| "interaction (Suc n) L s w =
     (case ppo_predict_action L s w of (a, w1) \<Rightarrow>
      case ppo_env_step L a w1 of ((s', r, terminated, truncated), w2) \<Rightarrow>
        ((s, a, s', r, terminated, truncated), w2) # interaction n L s' w2)"

section \<open>The MADDPG demo (examples/reinforcement\_learning/maddpg\_demo\_main.py)\<close>

text \<open>
  A Python \<open>dict\<close> is an association list with one entry for each key, in the order of
  insertion; \<open>AList.update\<close> is the assignment \<open>d[k] = v\<close>. Reading a key that is absent
  raises \<open>KeyError\<close>, reading a list out of its range raises \<open>IndexError\<close>;
  \<open>ValueError\<close> and \<open>TypeError\<close> are raised by numpy and jax (see the federated
  averaging below). Where a variable of the source has the name of a field of
  \<open>Transition\<close>, it carries the suffix \<open>_d\<close> here.
\<close>

type_synonym ('k, 'v) dict = "('k \<times> 'v) list"

datatype py_error = KeyError | IndexError | ValueError | TypeError

definition getitem :: "('k, 'v) dict \<Rightarrow> 'k \<Rightarrow> py_error + 'v" where
  "getitem d k = (case map_of d k of None \<Rightarrow> Inl KeyError | Some v \<Rightarrow> Inr v)"

text \<open>
  The environment (pettingzoo) and the agent (\<open>MADDPGAgent\<close>) are external, as in the PPO
  driver. \<open>mpe_env_agents\<close> is the attribute \<open>env.agents\<close>, \<open>mpe_env_render\<close> stands for
  \<open>Image.fromarray(env.render())\<close>; of the five results of \<open>env.step\<close> the driver uses the
  first two, the observations and the rewards of the agents.

  The observations and the rewards are objects of the library that the driver only reads,
  with \<open>state[agent]\<close> and \<open>reward[agent]\<close>. What reading gives is the library's affair (a
  \<open>dict\<close> raises \<open>KeyError\<close> for an absent key, a \<open>defaultdict\<close> gives its default), so
  such an object is the function from a key to what reading it gives.
\<close>

type_synonym ('k, 'v) lookup = "'k \<Rightarrow> py_error + 'v"

datatype ('g, 'o, 'a, 'r) mpe_event =
    MpeReset
  | MpePredict 'g 'o 'a
  | MpeStep "('g, 'a) dict" "('g, 'r) lookup"
  | MpeRender
  | MpePrint nat "('g, 'r) dict"
  | MpeClose
  | MpeSave nat

record ('w, 'g, 'o, 'a, 'r, 'f) mpe_lib =
  mpe_env_reset :: "'w \<Rightarrow> ('g, 'o) lookup \<times> 'w"
  mpe_env_agents :: "'w \<Rightarrow> 'g list"
  mpe_env_step :: "('g, 'a) dict \<Rightarrow> 'w \<Rightarrow> (('g, 'o) lookup \<times> ('g, 'r) lookup) \<times> 'w"
  mpe_env_render :: "'w \<Rightarrow> 'f \<times> 'w"
  mpe_predict_action :: "'g \<Rightarrow> 'o \<Rightarrow> 'w \<Rightarrow> 'a \<times> 'w"

record ('w, 'g, 'o, 'a, 'r, 'f) mpe_st =
  mpe_world :: 'w
  mpe_trace :: "('g, 'o, 'a, 'r) mpe_event list"
  frame_list :: "'f list"

text \<open>
  The comprehension \<open>{agent: maddpg.predict_action(agent=agent,
  agent_state=state[agent], explore_eps=0.) for agent in env.agents}\<close> (lines 45 to 49): the
  agents are visited in order, \<open>action\<close> is the dictionary built so far.
\<close>

fun predict_actions ::
  "('w, 'g, 'o, 'a, 'r, 'f) mpe_lib \<Rightarrow> 'g list \<Rightarrow> ('g, 'o) lookup \<Rightarrow> ('g, 'a) dict \<Rightarrow>
   ('w, 'g, 'o, 'a, 'r, 'f) mpe_st \<Rightarrow>
   py_error + (('g, 'a) dict \<times> ('w, 'g, 'o, 'a, 'r, 'f) mpe_st)"
where
  "predict_actions L [] state_d action_d st = Inr (action_d, st)"
| "predict_actions L (agent # agents) state_d action_d st =
     (case state_d agent of
        Inl e \<Rightarrow> Inl e
      | Inr agent_state \<Rightarrow>
          (case mpe_predict_action L agent agent_state (mpe_world st) of (a, w1) \<Rightarrow>
             predict_actions L agents state_d (AList.update agent a action_d)
               (st\<lparr>mpe_world := w1,
                   mpe_trace := mpe_trace st @ [MpePredict agent agent_state a]\<rparr>)))"

text \<open>The comprehension \<open>{agent: 0. for agent in env.agents}\<close> (line 42).\<close>

fun zero_rewards :: "'g list \<Rightarrow> ('g, 'r::{zero,plus}) dict \<Rightarrow> ('g, 'r) dict" where
  "zero_rewards [] sum_rewards = sum_rewards"
| "zero_rewards (agent # agents) sum_rewards =
     zero_rewards agents (AList.update agent 0 sum_rewards)"

text \<open>
  The comprehension \<open>{agent: sum_rewards[agent] + reward[agent] for agent in
  sum_rewards.keys()}\<close> (lines 53 to 56); the last argument is the dictionary built so far.
\<close>

fun add_rewards ::
  "'g list \<Rightarrow> ('g, 'r::{zero,plus}) dict \<Rightarrow> ('g, 'r) lookup \<Rightarrow> ('g, 'r) dict \<Rightarrow>
   py_error + ('g, 'r) dict"
where
  "add_rewards [] sum_rewards reward_d new = Inr new"
| "add_rewards (agent # keys) sum_rewards reward_d new =
     (case getitem sum_rewards agent of
        Inl e \<Rightarrow> Inl e
      | Inr s \<Rightarrow>
          (case reward_d agent of
             Inl e \<Rightarrow> Inl e
           | Inr r \<Rightarrow> add_rewards keys sum_rewards reward_d (AList.update agent (s + r) new)))"

text \<open>
  The loop \<open>while env.agents\<close> (lines 44 to 58). It runs until the environment has no
  agent left, so the first argument bounds the number of tests of the condition, and
  \<open>None\<close> says that the bound was reached.
\<close>

fun mpe_while ::
  "nat \<Rightarrow> ('w, 'g, 'o, 'a, 'r::{zero,plus}, 'f) mpe_lib \<Rightarrow> ('g, 'o) lookup \<Rightarrow> ('g, 'r) dict \<Rightarrow>
   ('w, 'g, 'o, 'a, 'r, 'f) mpe_st \<Rightarrow>
   (py_error + (('g, 'r) dict \<times> ('w, 'g, 'o, 'a, 'r, 'f) mpe_st)) option"
where
  "mpe_while 0 L state_d sum_rewards st = None"
| "mpe_while (Suc fuel) L state_d sum_rewards st =
     (if mpe_env_agents L (mpe_world st) = [] then Some (Inr (sum_rewards, st))
      else
        (case predict_actions L (mpe_env_agents L (mpe_world st)) state_d [] st of
           Inl e \<Rightarrow> Some (Inl e)
         | Inr (action_d, st1) \<Rightarrow>
             (case mpe_env_step L action_d (mpe_world st1) of ((next_state_d, reward_d), w2) \<Rightarrow>
              case mpe_env_render L w2 of (frame, w3) \<Rightarrow>
              case add_rewards (map fst sum_rewards) sum_rewards reward_d [] of
                Inl e \<Rightarrow> Some (Inl e)
              | Inr sum_rewards' \<Rightarrow>
                  mpe_while fuel L next_state_d sum_rewards'
                    (st1\<lparr>mpe_world := w3,
                         mpe_trace := mpe_trace st1 @ [MpeStep action_d reward_d, MpeRender],
                         frame_list := frame_list st1 @ [frame]\<rparr>))))"

text \<open>The body of \<open>for episode_idx in range(n_episodes)\<close> (lines 41 to 60).\<close>

definition mpe_episode ::
  "nat \<Rightarrow> ('w, 'g, 'o, 'a, 'r::{zero,plus}, 'f) mpe_lib \<Rightarrow> nat \<Rightarrow>
   ('w, 'g, 'o, 'a, 'r, 'f) mpe_st \<Rightarrow> (py_error + ('w, 'g, 'o, 'a, 'r, 'f) mpe_st) option"
where
  "mpe_episode fuel L episode_idx st =
     (case mpe_env_reset L (mpe_world st) of (state_d, w0) \<Rightarrow>
        (case mpe_while fuel L state_d (zero_rewards (mpe_env_agents L w0) [])
                (st\<lparr>mpe_world := w0, mpe_trace := mpe_trace st @ [MpeReset]\<rparr>) of
           None \<Rightarrow> None
         | Some (Inl e) \<Rightarrow> Some (Inl e)
         | Some (Inr (sum_rewards, st')) \<Rightarrow>
             Some (Inr (st'\<lparr>mpe_trace := mpe_trace st' @ [MpePrint episode_idx sum_rewards]\<rparr>))))"

text \<open>
  The \<open>for\<close> loop over the episodes, then \<open>env.close()\<close> and the saving of the frames
  (lines 39 to 64): \<open>frame_list[0]\<close> raises \<open>IndexError\<close> when no frame was rendered.
\<close>

fun mpe_episodes ::
  "nat \<Rightarrow> ('w, 'g, 'o, 'a, 'r::{zero,plus}, 'f) mpe_lib \<Rightarrow> nat list \<Rightarrow>
   ('w, 'g, 'o, 'a, 'r, 'f) mpe_st \<Rightarrow> (py_error + ('w, 'g, 'o, 'a, 'r, 'f) mpe_st) option"
where
  "mpe_episodes fuel L [] st = Some (Inr st)"
| "mpe_episodes fuel L (episode_idx # rest) st =
     (case mpe_episode fuel L episode_idx st of
        None \<Rightarrow> None
      | Some (Inl e) \<Rightarrow> Some (Inl e)
      | Some (Inr st') \<Rightarrow> mpe_episodes fuel L rest st')"

definition mpe_main_loop ::
  "nat \<Rightarrow> ('w, 'g, 'o, 'a, 'r::{zero,plus}, 'f) mpe_lib \<Rightarrow> int \<Rightarrow> 'w \<Rightarrow>
   (py_error + ('w, 'g, 'o, 'a, 'r, 'f) mpe_st) option"
where
  "mpe_main_loop fuel L n_episodes w =
     (case mpe_episodes fuel L [0..<nat n_episodes]
             \<lparr>mpe_world = w, mpe_trace = [], frame_list = []\<rparr> of
        None \<Rightarrow> None
      | Some (Inl e) \<Rightarrow> Some (Inl e)
      | Some (Inr st) \<Rightarrow>
          (if frame_list st = [] then Some (Inl IndexError)
           else Some (Inr (st\<lparr>mpe_trace :=
                  mpe_trace st @ [MpeClose, MpeSave (length (frame_list st))]\<rparr>))))"



section \<open>Federated averaging (examples/faderated\_learning/main.py)\<close>

subsection \<open>Arrays and parameter trees\<close>

text \<open>
  An array of jax is its shape and its elements in row-major order; the elements are real
  numbers, so rounding is left out. A parameter tree is the list of its leaves, each with
  its key path, in the order in which jax flattens the tree.

  \<open>jax.tree_util.tree_map\<close> applies a function leaf by leaf; with two trees it raises
  \<open>ValueError\<close> unless they have the same structure. \<open>x + y\<close> adds two arrays of one shape
  element by element. On arrays of different shapes jax broadcasts when the shapes are
  compatible and raises \<open>TypeError\<close> when they are not; broadcasting is not modelled, and
  \<open>arr_add\<close> gives \<open>TypeError\<close> whenever the shapes differ.
\<close>

datatype array = Array (arr_shape: "nat list") (arr_data: "real list")

type_synonym pytree = "(string \<times> array) list"

definition zeros_like :: "array \<Rightarrow> array" where
  "zeros_like x = Array (arr_shape x) (map (\<lambda>v. 0) (arr_data x))"

definition arr_add :: "array \<Rightarrow> array \<Rightarrow> py_error + array" where
  "arr_add x y =
     (if arr_shape x = arr_shape y \<and> length (arr_data x) = length (arr_data y)
      then Inr (Array (arr_shape x) (map (\<lambda>(u, v). u + v) (zip (arr_data x) (arr_data y))))
      else Inl TypeError)"

definition arr_div :: "array \<Rightarrow> int \<Rightarrow> array" where
  "arr_div x n = Array (arr_shape x) (map (\<lambda>v. v / real_of_int n) (arr_data x))"

definition tree_map :: "(array \<Rightarrow> array) \<Rightarrow> pytree \<Rightarrow> pytree" where
  "tree_map f t = map (\<lambda>(k, x). (k, f x)) t"

fun tree_map2 ::
  "(array \<Rightarrow> array \<Rightarrow> py_error + array) \<Rightarrow> pytree \<Rightarrow> pytree \<Rightarrow> py_error + pytree"
where
  "tree_map2 f [] [] = Inr []"
| "tree_map2 f ((k, x) # t) ((k', y) # u) =
     (if k \<noteq> k' then Inl ValueError
      else
        (case f x y of
           Inl e \<Rightarrow> Inl e
         | Inr z \<Rightarrow> (case tree_map2 f t u of Inl e \<Rightarrow> Inl e | Inr v \<Rightarrow> Inr ((k, z) # v))))"
| "tree_map2 f t u = Inl ValueError"

subsection \<open>The selection of the clients\<close>

text \<open>
  \<open>np.random.choice(np.arange(n), size, replace=False)\<close> as numpy's \<open>RandomState\<close> computes
  it: a Fisher-Yates shuffle of \<open>arange(n)\<close>, of which the first \<open>size\<close> entries are taken.
  The generator is the sequence of the numbers it will draw; \<open>random_interval max\<close> draws a
  number between \<open>0\<close> and \<open>max\<close>, both included.
\<close>

type_synonym rng = "nat \<Rightarrow> nat"

definition random_interval :: "nat \<Rightarrow> rng \<Rightarrow> nat \<times> rng" where
  "random_interval max_v g = (g 0 mod (max_v + 1), (\<lambda>i. g (Suc i)))"

definition arange :: "int \<Rightarrow> nat list" where
  "arange n = [0..<nat n]"

text \<open>
  \<open>for i in reversed(range(1, n)): j = random_interval(i); x[i], x[j] = x[j], x[i]\<close>;
  the first argument is the greatest \<open>i\<close> still to visit.
\<close>

fun shuffle_from :: "nat \<Rightarrow> nat list \<Rightarrow> rng \<Rightarrow> nat list \<times> rng" where
  "shuffle_from 0 x g = (x, g)"
| "shuffle_from (Suc i) x g =
     (case random_interval (Suc i) g of (j, g') \<Rightarrow>
        shuffle_from i (x[Suc i := x ! j, j := x ! Suc i]) g')"

definition permutation :: "nat \<Rightarrow> rng \<Rightarrow> nat list \<times> rng" where
  "permutation n g = shuffle_from (n - 1) [0..<n] g"

definition choice :: "nat list \<Rightarrow> int \<Rightarrow> rng \<Rightarrow> py_error + (nat list \<times> rng)" where
  "choice a size_v g =
     (let pop_size = length a in
      if pop_size = 0 \<and> size_v \<noteq> 0 then Inl ValueError
      else if size_v > int pop_size then Inl ValueError
      else if size_v < 0 then Inl ValueError
      else
        (case permutation pop_size g of (idx, g') \<Rightarrow>
           Inr (map (\<lambda>i. a ! i) (take (nat size_v) idx), g')))"

subsection \<open>The server\<close>

text \<open>
  \<open>Trainer\<close> and \<open>Predictor\<close> belong to the external library, \<open>confusion_matrix\<close> to
  scikit-learn. The state of the library is a value of an arbitrary type \<open>'w\<close>, a call
  returns the new state or the exception it raises, a value of an arbitrary type \<open>'e\<close>.
  \<open>fed_trainer_params\<close> is the attribute \<open>trainer.params\<close>, \<open>fed_accuracy preds labels\<close>
  is \<open>np.mean(np.array(preds) == np.array(labels))\<close>. An example is a dictionary.
\<close>

datatype 'e error = Raised 'e | Builtin py_error | NotANumber

record ('w, 'e, 'v, 'm) fed_lib =
  fed_set_train_state :: "pytree \<Rightarrow> real \<Rightarrow> 'w \<Rightarrow> 'e + 'w"
  fed_fit :: "(string, 'v) dict list \<Rightarrow> int \<Rightarrow> int \<Rightarrow> 'w \<Rightarrow> 'e + 'w"
  fed_trainer_params :: "'w \<Rightarrow> pytree"
  fed_predict :: "(string, 'v) dict list \<Rightarrow> int \<Rightarrow> pytree \<Rightarrow> 'w \<Rightarrow> 'e + ('v list \<times> 'w)"
  fed_accuracy :: "'v list \<Rightarrow> 'v list \<Rightarrow> 'm"
  fed_confusion_matrix :: "'v list \<Rightarrow> 'v list \<Rightarrow> 'e + 'm"

datatype ('v, 'm) fed_event =
    SetTrainState pytree real
  | PrintTrainSize nat
  | Fit "(string, 'v) dict list" int int
  | ClientParams pytree
  | Predict "(string, 'v) dict list" int pytree
  | PrintRound nat 'm 'm

text \<open>
  The state of a \<open>FedAvgServer\<close>: \<open>params\<close> is the attribute \<open>self._params\<close>, \<open>n_clients\<close>
  is \<open>self._n_clients\<close>, \<open>lib\<close> is the state of the trainer and of the predictor the server
  holds, \<open>np_random\<close> is the global generator of numpy. \<open>fed_trace\<close> records the calls into
  the library and the lines printed, in order; \<open>ClientParams\<close> records what
  \<open>train_client\<close> returns.
\<close>

record ('w, 'v, 'm) fed_st =
  params :: pytree
  n_clients :: int
  lib :: 'w
  np_random :: rng
  fed_trace :: "('v, 'm) fed_event list"

text \<open>The arguments of \<open>run\<close> but \<open>n_rounds\<close>.\<close>

record 'v run_args =
  n_clients_per_round :: int
  n_client_epochs_per_round :: int
  per_device_batch_size :: int
  eval_per_device_batch_size :: int
  learning_rate :: real
  client_train_datasets :: "(string, 'v) dict list list"
  eval_dataset :: "(string, 'v) dict list"

text \<open>\<open>train_client\<close> (lines 51 to 69).\<close>

definition train_client ::
  "('w, 'e, 'v, 'm) fed_lib \<Rightarrow> (string, 'v) dict list \<Rightarrow> real \<Rightarrow> int \<Rightarrow> int \<Rightarrow>
   ('w, 'v, 'm) fed_st \<Rightarrow> 'e error + (pytree \<times> ('w, 'v, 'm) fed_st)"
where
  "train_client L examples lr batch_size n_epochs st =
     (case fed_set_train_state L (params st) lr (lib st) of
        Inl e \<Rightarrow> Inl (Raised e)
      | Inr w1 \<Rightarrow>
          (case fed_fit L examples batch_size n_epochs w1 of
             Inl e \<Rightarrow> Inl (Raised e)
           | Inr w2 \<Rightarrow>
               Inr (fed_trainer_params L w2,
                    st\<lparr>lib := w2,
                       fed_trace := fed_trace st @
                         [SetTrainState (params st) lr, PrintTrainSize (length examples),
                          Fit examples batch_size n_epochs,
                          ClientParams (fed_trainer_params L w2)]\<rparr>)))"

text \<open>The list \<open>[example['label'] for example in examples]\<close> (line 76).\<close>

fun labels_of :: "(string, 'v) dict list \<Rightarrow> py_error + 'v list" where
  "labels_of [] = Inr []"
| "labels_of (example # examples) =
     (case getitem example ''label'' of
        Inl e \<Rightarrow> Inl e
      | Inr l \<Rightarrow> (case labels_of examples of Inl e \<Rightarrow> Inl e | Inr ls \<Rightarrow> Inr (l # ls)))"

text \<open>\<open>test\<close> (lines 71 to 81).\<close>

definition test ::
  "('w, 'e, 'v, 'm) fed_lib \<Rightarrow> (string, 'v) dict list \<Rightarrow> int \<Rightarrow>
   ('w, 'v, 'm) fed_st \<Rightarrow> 'e error + (('m \<times> 'm) \<times> ('w, 'v, 'm) fed_st)"
where
  "test L examples batch_size st =
     (case fed_predict L examples batch_size (params st) (lib st) of
        Inl e \<Rightarrow> Inl (Raised e)
      | Inr (preds, w1) \<Rightarrow>
          (case labels_of examples of
             Inl e \<Rightarrow> Inl (Builtin e)
           | Inr labels \<Rightarrow>
               (case fed_confusion_matrix L labels preds of
                  Inl e \<Rightarrow> Inl (Raised e)
                | Inr conf_mat \<Rightarrow>
                    Inr ((fed_accuracy L preds labels, conf_mat),
                         st\<lparr>lib := w1,
                            fed_trace := fed_trace st @
                              [Predict examples batch_size (params st)]\<rparr>))))"

text \<open>\<open>client_train_datasets[client_idx]\<close>, with an index that is not negative.\<close>

definition list_get :: "'a list \<Rightarrow> nat \<Rightarrow> py_error + 'a" where
  "list_get xs i = (if i < length xs then Inr (xs ! i) else Inl IndexError)"

text \<open>
  The loop \<open>for client_idx in round_client_idxes\<close> (lines 98 to 106);
  \<open>sum_client_params\<close> is the sum so far.
\<close>

fun run_clients ::
  "('w, 'e, 'v, 'm) fed_lib \<Rightarrow> 'v run_args \<Rightarrow> nat list \<Rightarrow> pytree \<Rightarrow>
   ('w, 'v, 'm) fed_st \<Rightarrow> 'e error + (pytree \<times> ('w, 'v, 'm) fed_st)"
where
  "run_clients L A [] sum_client_params st = Inr (sum_client_params, st)"
| "run_clients L A (client_idx # rest) sum_client_params st =
     (case list_get (client_train_datasets A) client_idx of
        Inl e \<Rightarrow> Inl (Builtin e)
      | Inr examples \<Rightarrow>
          (case train_client L examples (learning_rate A) (per_device_batch_size A)
                  (n_client_epochs_per_round A) st of
             Inl e \<Rightarrow> Inl e
           | Inr (client_params, st1) \<Rightarrow>
               (case tree_map2 arr_add sum_client_params client_params of
                  Inl e \<Rightarrow> Inl (Builtin e)
                | Inr sum_client_params' \<Rightarrow> run_clients L A rest sum_client_params' st1)))"

text \<open>
  The division \<open>x / n_clients_per_round\<close> of every leaf (lines 108 and 109). With
  \<open>n_clients_per_round = 0\<close> jax gives arrays of NaN, which the real numbers do not have:
  the model stops there with \<open>NotANumber\<close>.
\<close>

definition tree_div :: "pytree \<Rightarrow> int \<Rightarrow> 'e error + pytree" where
  "tree_div t n = (if n = 0 then Inl NotANumber else Inr (tree_map (\<lambda>x. arr_div x n) t))"

text \<open>The body of \<open>for round_idx in tqdm.trange(n_rounds)\<close> (lines 93 to 117).\<close>

definition run_round ::
  "('w, 'e, 'v, 'm) fed_lib \<Rightarrow> 'v run_args \<Rightarrow> nat \<Rightarrow> ('w, 'v, 'm) fed_st \<Rightarrow>
   'e error + ('w, 'v, 'm) fed_st"
where
  "run_round L A round_idx st =
     (case choice (arange (n_clients st)) (n_clients_per_round A) (np_random st) of
        Inl e \<Rightarrow> Inl (Builtin e)
      | Inr (round_client_idxes, g') \<Rightarrow>
          (case run_clients L A round_client_idxes (tree_map zeros_like (params st))
                  (st\<lparr>np_random := g'\<rparr>) of
             Inl e \<Rightarrow> Inl e
           | Inr (sum_client_params, st1) \<Rightarrow>
               (case tree_div sum_client_params (n_clients_per_round A) of
                  Inl e \<Rightarrow> Inl e
                | Inr new_params \<Rightarrow>
                    (case test L (eval_dataset A) (eval_per_device_batch_size A)
                            (st1\<lparr>params := new_params\<rparr>) of
                       Inl e \<Rightarrow> Inl e
                     | Inr ((acc, conf_mat), st2) \<Rightarrow>
                         Inr (st2\<lparr>fed_trace := fed_trace st2 @
                                [PrintRound round_idx acc conf_mat]\<rparr>)))))"

text \<open>\<open>run\<close> (lines 83 to 117): the rounds \<open>0\<close> to \<open>n_rounds - 1\<close>, in order.\<close>

fun run_rounds ::
  "('w, 'e, 'v, 'm) fed_lib \<Rightarrow> 'v run_args \<Rightarrow> nat list \<Rightarrow> ('w, 'v, 'm) fed_st \<Rightarrow>
   'e error + ('w, 'v, 'm) fed_st"
where
  "run_rounds L A [] st = Inr st"
| "run_rounds L A (round_idx # rest) st =
     (case run_round L A round_idx st of
        Inl e \<Rightarrow> Inl e
      | Inr st' \<Rightarrow> run_rounds L A rest st')"

definition run ::
  "('w, 'e, 'v, 'm) fed_lib \<Rightarrow> int \<Rightarrow> 'v run_args \<Rightarrow> ('w, 'v, 'm) fed_st \<Rightarrow>
   'e error + ('w, 'v, 'm) fed_st"
where
  "run L n_rounds A st = run_rounds L A [0..<nat n_rounds] st"

subsection \<open>Reading a state and a trace\<close>

text \<open>
  \<open>client_results\<close>: the parameter trees that the calls of \<open>train_client\<close> returned, in
  order. \<open>leaf_at t i j\<close>: element \<open>j\<close> of leaf \<open>i\<close> of a tree. \<open>tree_structure\<close>: the key
  path, the shape and the number of elements of every leaf. \<open>client_events\<close>: what the
  training of one client leaves in the trace.
\<close>

fun client_results :: "('v, 'm) fed_event list \<Rightarrow> pytree list" where
  "client_results [] = []"
| "client_results (ClientParams p # evs) = p # client_results evs"
| "client_results (ev # evs) = client_results evs"

definition leaf_at :: "pytree \<Rightarrow> nat \<Rightarrow> nat \<Rightarrow> real" where
  "leaf_at t i j = arr_data (snd (t ! i)) ! j"

definition tree_structure :: "pytree \<Rightarrow> (string \<times> nat list \<times> nat) list" where
  "tree_structure t = map (\<lambda>(k, x). (k, arr_shape x, length (arr_data x))) t"

definition client_events ::
  "'v run_args \<Rightarrow> pytree \<Rightarrow> nat \<times> pytree \<Rightarrow> ('v, 'm) fed_event list" where
  "client_events A p x = (case x of (client_idx, client_params) \<Rightarrow>
     [SetTrainState p (learning_rate A),
      PrintTrainSize (length (client_train_datasets A ! client_idx)),
      Fit (client_train_datasets A ! client_idx) (per_device_batch_size A)
        (n_client_epochs_per_round A),
      ClientParams client_params])"

text \<open>
  The calls into the trainer that train the clients \<open>idxs\<close> from the parameters \<open>p\<close> one
  after the other, each from the state of the library the one before left: the parameter
  trees obtained, and the last state of the library.
\<close>

fun sequential_training ::
  "('w, 'e, 'v, 'm) fed_lib \<Rightarrow> 'v run_args \<Rightarrow> pytree \<Rightarrow> nat list \<Rightarrow> 'w \<Rightarrow>
   'e + (pytree list \<times> 'w)"
where
  "sequential_training L A p [] w = Inr ([], w)"
| "sequential_training L A p (i # idxs) w =
     (case fed_set_train_state L p (learning_rate A) w of
        Inl e \<Rightarrow> Inl e
      | Inr w1 \<Rightarrow>
          (case fed_fit L (client_train_datasets A ! i) (per_device_batch_size A)
                  (n_client_epochs_per_round A) w1 of
             Inl e \<Rightarrow> Inl e
           | Inr w2 \<Rightarrow>
               (case sequential_training L A p idxs w2 of
                  Inl e \<Rightarrow> Inl e
                | Inr (cs, w') \<Rightarrow> Inr (fed_trainer_params L w2 # cs, w'))))"

section \<open>GLUE classification and regression (examples/classification\_regression/glue\_main.py)\<close>

subsection \<open>\<open>collate_fn\<close>\<close>




text \<open>The list \<open>[example[label_key] for example in examples]\<close> (line 42).\<close>

fun collate_labels :: "(string, 'v) dict list \<Rightarrow> string \<Rightarrow> py_error + 'v list" where
  "collate_labels [] label_key = Inr []"
| "collate_labels (example # examples) label_key =
     (case getitem example label_key of
        Inl e \<Rightarrow> Inl e
      | Inr l \<Rightarrow>
          (case collate_labels examples label_key of
             Inl e \<Rightarrow> Inl e
           | Inr ls \<Rightarrow> Inr (l # ls)))"



subsection \<open>\<open>main\<close>\<close>

text \<open>
  The deployer, the tokenizer, the model and its parameters, the learning rate schedule,
  the trainer and the predictor are objects of external libraries: values of an arbitrary
  type \<open>'o\<close> that \<open>main\<close> only hands on. The functions \<open>main\<close> builds with \<open>partial\<close> are
  given by the function and the arguments bound. An optimizer of optax is \<open>adamw\<close> or
  \<open>MultiSteps\<close> around an optimizer. The fields of the record of the arguments of \<open>main\<close>
  carry the prefix \<open>cfg_\<close>, those of the records of keyword arguments a letter.
\<close>

datatype 'o closure =
    CollateFn string "string option" string 'o int
  | LossFn bool
  | PredFn 'o bool
  | EvalMetricFn string bool

datatype 'o optimizer = Adamw 'o real | MultiSteps "'o optimizer" int

record glue_config =
  cfg_n_processes :: int
  cfg_host0_address :: "string option"
  cfg_host0_port :: int
  cfg_process_id :: "int option"
  cfg_dataset_name :: string
  cfg_sent0_key :: string
  cfg_sent1_key :: "string option"
  cfg_label_key :: string
  cfg_is_regression :: bool
  cfg_model_name_or_path :: string
  cfg_n_model_shards :: int
  cfg_max_length :: int
  cfg_n_epochs :: int
  cfg_per_device_batch_size :: int
  cfg_eval_per_device_batch_size :: int
  cfg_accumulate_grad_batches :: int
  cfg_learning_rate :: real
  cfg_warmup_rate :: real
  cfg_weight_decay :: real
  cfg_jax_seed :: int
  cfg_workdir :: string
  cfg_run_tensorboard :: bool

record deployer_args =
  d_n_model_shards :: int
  d_jax_seed :: int
  d_workdir :: string
  d_run_tensorboard :: bool
  d_n_processes :: int
  d_host0_address :: "string option"
  d_host0_port :: int
  d_process_id :: "int option"

record lr_schedule_args =
  s_train_size :: nat
  s_per_device_batch_size :: int
  s_n_epochs :: int
  s_learning_rate :: real
  s_schedule_type :: string
  s_warmup_rate :: real

record 'o trainer_args =
  t_deployer :: 'o
  t_collate_fn :: "'o closure"
  t_apply_fn :: 'o
  t_loss_fn :: "'o closure"
  t_params :: 'o
  t_optimizer :: "'o optimizer"
  t_lr_schedule_fn :: 'o
  t_params_sharding_rules :: 'o

record ('o, 'v) fit_args =
  f_train_examples :: "(string, 'v) dict list"
  f_per_device_batch_size :: int
  f_n_epochs :: int
  f_eval_examples :: "(string, 'v) dict list"
  f_eval_per_device_batch_size :: int
  f_eval_loss :: bool
  f_eval_predictor :: 'o
  f_eval_metric_fn :: "'o closure"

text \<open>
  The calls of \<open>main\<close> into the libraries, each a function of the state \<open>'w\<close> of the
  libraries that returns its result and the new state, or the exception it raises.
  \<open>g_load_dataset\<close> gives the splits as lists of examples (line 114 turns them into lists),
  \<open>g_devices\<close> is \<open>jax.devices\<close>, \<open>g_model_from_pretrained\<close> takes the device of the
  \<open>with\<close> block, \<open>g_to_fp32\<close> stands for \<open>model.params = model.to_fp32(model.params)\<close> and
  returns the model so changed, \<open>g_model_params\<close> is the attribute \<open>model.params\<close>.
\<close>

record ('w, 'e, 'o, 'v) glue_lib =
  g_Deployer :: "deployer_args \<Rightarrow> 'w \<Rightarrow> 'e + ('o \<times> 'w)"
  g_load_dataset ::
    "string \<Rightarrow> string \<Rightarrow> 'w \<Rightarrow> 'e + ((string, (string, 'v) dict list) dict \<times> 'w)"
  g_tokenizer_from_pretrained :: "string \<Rightarrow> 'w \<Rightarrow> 'e + ('o \<times> 'w)"
  g_devices :: "string \<Rightarrow> 'w \<Rightarrow> 'e + ('o list \<times> 'w)"
  g_model_from_pretrained :: "string \<Rightarrow> nat \<Rightarrow> 'o \<Rightarrow> 'w \<Rightarrow> 'e + ('o \<times> 'w)"
  g_to_fp32 :: "'o \<Rightarrow> 'w \<Rightarrow> 'e + ('o \<times> 'w)"
  g_model_params :: "'o \<Rightarrow> 'o"
  g_get_lr_schedule_fn :: "'o \<Rightarrow> lr_schedule_args \<Rightarrow> 'w \<Rightarrow> 'e + ('o \<times> 'w)"
  g_get_sharding_rules :: "'o \<Rightarrow> 'o \<Rightarrow> 'w \<Rightarrow> 'e + ('o \<times> 'w)"
  g_Trainer :: "'o trainer_args \<Rightarrow> 'w \<Rightarrow> 'e + ('o \<times> 'w)"
  g_get_default_predictor :: "'o \<Rightarrow> 'o closure \<Rightarrow> 'w \<Rightarrow> 'e + ('o \<times> 'w)"
  g_fit :: "'o \<Rightarrow> ('o, 'v) fit_args \<Rightarrow> 'w \<Rightarrow> 'e + (unit \<times> 'w)"

datatype ('o, 'v) glue_call =
    CallDeployer deployer_args
  | CallLoadDataset string string
  | CallTokenizerFromPretrained string
  | CallDevices string
  | CallModelFromPretrained string nat 'o
  | CallToFp32 'o
  | CallGetLrScheduleFn 'o lr_schedule_args
  | CallGetShardingRules 'o 'o
  | CallTrainer "'o trainer_args"
  | CallGetDefaultPredictor 'o "'o closure"
  | CallFit 'o "('o, 'v) fit_args"

record ('w, 'o, 'v) glue_st =
  g_world :: 'w
  g_trace :: "('o, 'v) glue_call list"

text \<open>
  A call into a library: it is recorded in the trace, and the exception it raises, if any,
  ends \<open>main\<close> (there is no \<open>try\<close> in the file): the result is then the exception and the
  state in which it was raised.
\<close>

definition ext_call ::
  "('o, 'v) glue_call \<Rightarrow> ('w \<Rightarrow> 'e + ('a \<times> 'w)) \<Rightarrow> ('w, 'o, 'v) glue_st \<Rightarrow>
   ('e error \<times> ('w, 'o, 'v) glue_st) + ('a \<times> ('w, 'o, 'v) glue_st)"
where
  "ext_call c f st =
     (case f (g_world st) of
        Inl e \<Rightarrow> Inl (Raised e, st\<lparr>g_trace := g_trace st @ [c]\<rparr>)
      | Inr (x, w') \<Rightarrow> Inr (x, \<lparr>g_world = w', g_trace = g_trace st @ [c]\<rparr>))"

text \<open>
  \<open>num_labels\<close> (lines 116 and 117): the number of distinct labels of the training split,
  or 1 for a regression.
\<close>

definition num_labels_of ::
  "glue_config \<Rightarrow> (string, (string, 'v) dict list) dict \<Rightarrow> py_error + nat"
where
  "num_labels_of cfg dataset =
     (if cfg_is_regression cfg then Inr 1
      else
        (case getitem dataset ''train'' of
           Inl e \<Rightarrow> Inl e
         | Inr train \<Rightarrow>
             (case collate_labels train (cfg_label_key cfg) of
                Inl e \<Rightarrow> Inl e
              | Inr labels \<Rightarrow> Inr (length (remdups labels)))))"

text \<open>The optimizer (lines 133 to 137).\<close>

definition glue_optimizer :: "glue_config \<Rightarrow> 'o \<Rightarrow> 'o optimizer" where
  "glue_optimizer cfg lr_schedule_fn =
     (let optimizer = Adamw lr_schedule_fn (cfg_weight_decay cfg)
      in if cfg_accumulate_grad_batches cfg > 1
         then MultiSteps optimizer (cfg_accumulate_grad_batches cfg)
         else optimizer)"

text \<open>
  A step of \<open>main\<close> inside Python that may raise (a key or an index that is absent), and
  the sequencing of two steps: the second runs when the first raised nothing.
\<close>

definition py_step ::
  "py_error + 'a \<Rightarrow> ('w, 'o, 'v) glue_st \<Rightarrow>
   ('e error \<times> ('w, 'o, 'v) glue_st) + ('a \<times> ('w, 'o, 'v) glue_st)"
where
  "py_step r st = (case r of Inl e \<Rightarrow> Inl (Builtin e, st) | Inr x \<Rightarrow> Inr (x, st))"

definition and_then :: "'x + ('a \<times> 's) \<Rightarrow> ('a \<Rightarrow> 's \<Rightarrow> 'x + 'b) \<Rightarrow> 'x + 'b" where
  "and_then m f = (case m of Inl x \<Rightarrow> Inl x | Inr (a, s) \<Rightarrow> f a s)"

text \<open>The keyword arguments of the calls of \<open>main\<close>.\<close>

definition main_deployer_args :: "glue_config \<Rightarrow> deployer_args" where
  "main_deployer_args cfg =
     \<lparr>d_n_model_shards = cfg_n_model_shards cfg, d_jax_seed = cfg_jax_seed cfg,
      d_workdir = cfg_workdir cfg, d_run_tensorboard = cfg_run_tensorboard cfg,
      d_n_processes = cfg_n_processes cfg, d_host0_address = cfg_host0_address cfg,
      d_host0_port = cfg_host0_port cfg, d_process_id = cfg_process_id cfg\<rparr>"

definition main_lr_schedule_args :: "glue_config \<Rightarrow> (string, 'v) dict list \<Rightarrow> lr_schedule_args"
where
  "main_lr_schedule_args cfg train =
     \<lparr>s_train_size = length train, s_per_device_batch_size = cfg_per_device_batch_size cfg,
      s_n_epochs = cfg_n_epochs cfg, s_learning_rate = cfg_learning_rate cfg,
      s_schedule_type = ''linear'', s_warmup_rate = cfg_warmup_rate cfg\<rparr>"

definition main_trainer_args ::
  "glue_config \<Rightarrow> 'o \<Rightarrow> 'o \<Rightarrow> 'o \<Rightarrow> 'o \<Rightarrow> 'o optimizer \<Rightarrow> 'o \<Rightarrow> 'o \<Rightarrow> 'o trainer_args"
where
  "main_trainer_args cfg deployer tokenizer model model_params optimizer lr_schedule_fn rules =
     \<lparr>t_deployer = deployer,
      t_collate_fn = CollateFn (cfg_sent0_key cfg) (cfg_sent1_key cfg) (cfg_label_key cfg)
        tokenizer (cfg_max_length cfg),
      t_apply_fn = model, t_loss_fn = LossFn (cfg_is_regression cfg),
      t_params = model_params, t_optimizer = optimizer,
      t_lr_schedule_fn = lr_schedule_fn, t_params_sharding_rules = rules\<rparr>"

definition main_fit_args ::
  "glue_config \<Rightarrow> (string, 'v) dict list \<Rightarrow> (string, 'v) dict list \<Rightarrow> 'o \<Rightarrow> ('o, 'v) fit_args"
where
  "main_fit_args cfg train validation predictor =
     \<lparr>f_train_examples = train, f_per_device_batch_size = cfg_per_device_batch_size cfg,
      f_n_epochs = cfg_n_epochs cfg, f_eval_examples = validation,
      f_eval_per_device_batch_size = cfg_eval_per_device_batch_size cfg,
      f_eval_loss = True, f_eval_predictor = predictor,
      f_eval_metric_fn = EvalMetricFn (cfg_label_key cfg) (cfg_is_regression cfg)\<rparr>"

text \<open>\<open>main\<close> (lines 81 to 167), statement by statement.\<close>

definition glue_main ::
  "('w, 'e, 'o, 'v) glue_lib \<Rightarrow> glue_config \<Rightarrow> ('w, 'o, 'v) glue_st \<Rightarrow>
   ('e error \<times> ('w, 'o, 'v) glue_st) + ('w, 'o, 'v) glue_st"
where
  "glue_main L cfg st =
     and_then (ext_call (CallDeployer (main_deployer_args cfg))
                 (g_Deployer L (main_deployer_args cfg)) st)
     (\<lambda>deployer st1.
     and_then (ext_call (CallLoadDataset ''glue'' (cfg_dataset_name cfg))
                 (g_load_dataset L ''glue'' (cfg_dataset_name cfg)) st1)
     (\<lambda>dataset st2.
     and_then (py_step (num_labels_of cfg dataset) st2)
     (\<lambda>num_labels st2'.
     and_then (ext_call (CallTokenizerFromPretrained (cfg_model_name_or_path cfg))
                 (g_tokenizer_from_pretrained L (cfg_model_name_or_path cfg)) st2')
     (\<lambda>tokenizer st3.
     and_then (ext_call (CallDevices ''cpu'') (g_devices L ''cpu'') st3)
     (\<lambda>devices st4.
     and_then (py_step (list_get devices 0) st4)
     (\<lambda>device st4'.
     and_then (ext_call
                 (CallModelFromPretrained (cfg_model_name_or_path cfg) num_labels device)
                 (g_model_from_pretrained L (cfg_model_name_or_path cfg) num_labels device)
                 st4')
     (\<lambda>model0 st5.
     and_then (ext_call (CallToFp32 model0) (g_to_fp32 L model0) st5)
     (\<lambda>model st6.
     and_then (py_step (getitem dataset ''train'') st6)
     (\<lambda>train st6'.
     and_then (ext_call (CallGetLrScheduleFn deployer (main_lr_schedule_args cfg train))
                 (g_get_lr_schedule_fn L deployer (main_lr_schedule_args cfg train)) st6')
     (\<lambda>lr_schedule_fn st7.
     and_then (ext_call (CallGetShardingRules deployer (g_model_params L model))
                 (g_get_sharding_rules L deployer (g_model_params L model)) st7)
     (\<lambda>rules st8.
     and_then (ext_call
                 (CallTrainer (main_trainer_args cfg deployer tokenizer model
                    (g_model_params L model) (glue_optimizer cfg lr_schedule_fn)
                    lr_schedule_fn rules))
                 (g_Trainer L (main_trainer_args cfg deployer tokenizer model
                    (g_model_params L model) (glue_optimizer cfg lr_schedule_fn)
                    lr_schedule_fn rules)) st8)
     (\<lambda>trainer st9.
     and_then (ext_call
                 (CallGetDefaultPredictor trainer (PredFn model (cfg_is_regression cfg)))
                 (g_get_default_predictor L trainer (PredFn model (cfg_is_regression cfg)))
                 st9)
     (\<lambda>predictor st10.
     and_then (py_step (getitem dataset ''validation'') st10)
     (\<lambda>validation st10'.
     and_then (ext_call (CallFit trainer (main_fit_args cfg train validation predictor))
                 (g_fit L trainer (main_fit_args cfg train validation predictor)) st10')
     (\<lambda>u st11. Inr st11)))))))))))))))"

text \<open>Reading a trace: the arguments of the calls of \<open>Trainer\<close>, and the calls of \<open>fit\<close>.\<close>

fun trainer_calls :: "('o, 'v) glue_call list \<Rightarrow> 'o trainer_args list" where
  "trainer_calls [] = []"
| "trainer_calls (CallTrainer targs # cs) = targs # trainer_calls cs"
| "trainer_calls (c # cs) = trainer_calls cs"

fun is_fit :: "('o, 'v) glue_call \<Rightarrow> bool" where
  "is_fit (CallFit trainer fargs) = True"
| "is_fit c = False"

text \<open>The state in which \<open>main\<close> ends, with or without an exception.\<close>

definition final_state ::
  "('e error \<times> ('w, 'o, 'v) glue_st) + ('w, 'o, 'v) glue_st \<Rightarrow> ('w, 'o, 'v) glue_st" where
  "final_state r = (case r of Inl (e, s) \<Rightarrow> s | Inr s \<Rightarrow> s)"

section \<open>Concrete inputs\<close>

text \<open>
  A small environment and agent for the PPO driver. The state of the libraries is the
  number of steps since the reset and the list of what the agent was asked to do: \<open>update\<close>
  notes the number of transitions it received, \<open>train\<close> its number of epochs. Every step
  gives the reward \<open>-1\<close>, and the second step is truncated without being terminated.
\<close>

definition demo_ppo_lib :: "(nat \<times> int list, nat, nat, int) ppo_lib" where
  "demo_ppo_lib =
     \<lparr>ppo_env_reset = (\<lambda>w. (0, (0, snd w))),
      ppo_env_step = (\<lambda>a w. ((Suc (fst w), - 1, False, 2 \<le> Suc (fst w)), (Suc (fst w), snd w))),
      ppo_predict_action = (\<lambda>s w. (s mod 2, w)),
      ppo_update = (\<lambda>trs w. (fst w, snd w @ [int (length trs)])),
      ppo_train = (\<lambda>n w. (fst w, snd w @ [n]))\<rparr>"

definition demo_ppo_st :: "(nat \<times> int list, nat, nat, int) ppo_st" where
  "demo_ppo_st = \<lparr>world = (7, []), trace = [], episode_rewards = []\<rparr>"

definition demo_ppo_st' :: "(nat \<times> int list, nat, nat, int) ppo_st" where
  "demo_ppo_st' =
     \<lparr>world = (2, [2, 10]),
      trace = [EnvReset 0, PredictAction 0 0, EnvStep 0 1 (- 1) False False,
               PredictAction 1 1, EnvStep 1 2 (- 1) False True,
               Print 0 (- 2),
               AgentUpdate
                 [\<lparr>state = 0, action = 0, next_state = 1, reward = - 1, done_t = 0\<rparr>,
                  \<lparr>state = 1, action = 1, next_state = 2, reward = - 1, done_t = 0\<rparr>],
               AgentTrain 10],
      episode_rewards = [- 2]\<rparr>"










text \<open>
  A small library for the federated averaging: the trainer holds a parameter tree, \<open>fit\<close>
  adds the number of its examples to every parameter, the predictor answers \<open>0\<close> for every
  example. Three clients with one, two and three examples; two of them are selected in a
  round.
\<close>

definition demo_fit :: "(string, nat) dict list \<Rightarrow> int \<Rightarrow> int \<Rightarrow> pytree \<Rightarrow> string + pytree" where
  "demo_fit examples batch_size n_epochs w =
     Inr (tree_map (\<lambda>x. Array (arr_shape x)
            (map (\<lambda>v. v + real (length examples)) (arr_data x))) w)"

definition demo_fed_lib :: "(pytree, string, nat, nat) fed_lib" where
  "demo_fed_lib =
     \<lparr>fed_set_train_state = (\<lambda>p lr w. Inr p),
      fed_fit = demo_fit,
      fed_trainer_params = (\<lambda>w. w),
      fed_predict = (\<lambda>examples batch_size p w. Inr (map (\<lambda>x. 0) examples, w)),
      fed_accuracy = (\<lambda>preds labels. length (filter (\<lambda>(p, l). p = l) (zip preds labels))),
      fed_confusion_matrix = (\<lambda>labels preds. Inr (length labels))\<rparr>"

definition demo_example :: "(string, nat) dict" where
  "demo_example = [(''label'', 0)]"

definition demo_run_args :: "nat run_args" where
  "demo_run_args =
     \<lparr>n_clients_per_round = 2, n_client_epochs_per_round = 5, per_device_batch_size = 10,
      eval_per_device_batch_size = 100, learning_rate = 1 / 1000,
      client_train_datasets =
        [[demo_example], [demo_example, demo_example],
         [demo_example, demo_example, demo_example]],
      eval_dataset = [demo_example]\<rparr>"

definition demo_params :: pytree where
  "demo_params = [(''w'', Array [2] [1, 2])]"

definition demo_fed_st :: "(pytree, nat, nat) fed_st" where
  "demo_fed_st =
     \<lparr>params = demo_params, n_clients = 3, lib = [], np_random = (\<lambda>i. i), fed_trace = []\<rparr>"

definition demo_fed_trace :: "(nat, nat) fed_event list" where
  "demo_fed_trace =
     [SetTrainState demo_params (1 / 1000), PrintTrainSize 3,
      Fit [demo_example, demo_example, demo_example] 10 5,
      ClientParams [(''w'', Array [2] [4, 5])],
      SetTrainState demo_params (1 / 1000), PrintTrainSize 2,
      Fit [demo_example, demo_example] 10 5,
      ClientParams [(''w'', Array [2] [3, 4])]]"

definition demo_fed_st' :: "(pytree, nat, nat) fed_st" where
  "demo_fed_st' =
     \<lparr>params = [(''w'', Array [2] [7 / 2, 9 / 2])], n_clients = 3,
      lib = [(''w'', Array [2] [3, 4])], np_random = (\<lambda>i. Suc (Suc i)),
      fed_trace = demo_fed_trace @
        [Predict [demo_example] 100 [(''w'', Array [2] [7 / 2, 9 / 2])], PrintRound 0 1 1]\<rparr>"



section \<open>Properties of the PPO driver\<close>

lemma demo_ppo_episode:
  "ppo_episode (Suc (Suc (Suc 0))) demo_ppo_lib 0 demo_ppo_st = Some demo_ppo_st'"
  by (simp add: ppo_episode_def demo_ppo_lib_def demo_ppo_st_def demo_ppo_st'_def Let_def)





lemma length_interaction: "length (interaction n L s w) = n"
  by (induction n arbitrary: s w) (auto split: prod.splits)

lemma ppo_while_run:
  "ppo_while fuel L i s acc trs st = Some st' \<Longrightarrow>
   \<exists>n. 0 < n \<and> n \<le> fuel \<and>
     (\<forall>x \<in> set (butlast (interaction n L s (world st))). \<not> step_ends (fst x)) \<and>
     step_ends (fst (last (interaction n L s (world st)))) \<and>
     world st' = ppo_train L 10
       (ppo_update L (trs @ map (step_transition \<circ> fst) (interaction n L s (world st)))
          (snd (last (interaction n L s (world st))))) \<and>
     trace st' = trace st @ concat (map (step_events \<circ> fst) (interaction n L s (world st))) @
       [Print i (foldl (+) acc (map (step_reward \<circ> fst) (interaction n L s (world st)))),
        AgentUpdate (trs @ map (step_transition \<circ> fst) (interaction n L s (world st))),
        AgentTrain 10]"
proof (induction fuel arbitrary: s acc trs st)
  case 0
  then show ?case by simp
next
  case (Suc fuel)
  obtain a w1 where pa: "ppo_predict_action L s (world st) = (a, w1)"
    by (cases "ppo_predict_action L s (world st)")
  obtain s' r te tr w2 where es: "ppo_env_step L a w1 = ((s', r, te, tr), w2)"
    by (cases "ppo_env_step L a w1") auto
  let ?x = "(s, a, s', r, te, tr)"
  have i1: "interaction (Suc 0) L s (world st) = [(?x, w2)]" using pa es by simp
  show ?case
  proof (cases "te \<or> tr")
    case True
    with Suc.prems pa es have
      "world st' = ppo_train L 10 (ppo_update L (trs @ [step_transition ?x]) w2)"
      "trace st' = trace st @ step_events ?x @
         [Print i (acc + r), AgentUpdate (trs @ [step_transition ?x]), AgentTrain 10]"
      by (auto simp: Let_def step_events_def step_transition_def)
    moreover from True have "step_ends ?x" by (simp add: step_ends_def)
    ultimately have "0 < Suc 0 \<and> Suc 0 \<le> Suc fuel \<and>
     (\<forall>x \<in> set (butlast (interaction (Suc 0) L s (world st))). \<not> step_ends (fst x)) \<and>
     step_ends (fst (last (interaction (Suc 0) L s (world st)))) \<and>
     world st' = ppo_train L 10
       (ppo_update L (trs @ map (step_transition \<circ> fst) (interaction (Suc 0) L s (world st)))
          (snd (last (interaction (Suc 0) L s (world st))))) \<and>
     trace st' = trace st @
       concat (map (step_events \<circ> fst) (interaction (Suc 0) L s (world st))) @
       [Print i (foldl (+) acc (map (step_reward \<circ> fst) (interaction (Suc 0) L s (world st)))),
        AgentUpdate (trs @ map (step_transition \<circ> fst) (interaction (Suc 0) L s (world st))),
        AgentTrain 10]"
      unfolding i1 by (simp add: step_reward_def)
    then show ?thesis by (rule exI)
  next
    case False
    let ?st1 = "st\<lparr>world := w2, trace := trace st @ [PredictAction s a, EnvStep a s' r te tr]\<rparr>"
    from False Suc.prems pa es have
      "ppo_while fuel L i s' (acc + r) (trs @ [step_transition ?x]) ?st1 = Some st'"
      by (simp add: Let_def step_transition_def)
    from Suc.IH [OF this] obtain n where N: "0 < n \<and> n \<le> fuel \<and>
     (\<forall>x \<in> set (butlast (interaction n L s' (world ?st1))). \<not> step_ends (fst x)) \<and>
     step_ends (fst (last (interaction n L s' (world ?st1)))) \<and>
     world st' = ppo_train L 10
       (ppo_update L ((trs @ [step_transition ?x]) @
            map (step_transition \<circ> fst) (interaction n L s' (world ?st1)))
          (snd (last (interaction n L s' (world ?st1))))) \<and>
     trace st' = trace ?st1 @
       concat (map (step_events \<circ> fst) (interaction n L s' (world ?st1))) @
       [Print i (foldl (+) (acc + r)
          (map (step_reward \<circ> fst) (interaction n L s' (world ?st1)))),
        AgentUpdate ((trs @ [step_transition ?x]) @
          map (step_transition \<circ> fst) (interaction n L s' (world ?st1))),
        AgentTrain 10]" ..
    have w: "world ?st1 = w2"
      "trace ?st1 = trace st @ [PredictAction s a, EnvStep a s' r te tr]" by simp_all
    note n = N [unfolded w]
    have iS: "interaction (Suc n) L s (world st) = (?x, w2) # interaction n L s' w2"
      using pa es by simp
    have ne: "interaction n L s' w2 \<noteq> []"
      using n length_interaction [of n L s' w2] by auto
    from False have nx: "\<not> step_ends ?x" by (simp add: step_ends_def)
    have "0 < Suc n \<and> Suc n \<le> Suc fuel \<and>
     (\<forall>x \<in> set (butlast (interaction (Suc n) L s (world st))). \<not> step_ends (fst x)) \<and>
     step_ends (fst (last (interaction (Suc n) L s (world st)))) \<and>
     world st' = ppo_train L 10
       (ppo_update L (trs @ map (step_transition \<circ> fst) (interaction (Suc n) L s (world st)))
          (snd (last (interaction (Suc n) L s (world st))))) \<and>
     trace st' = trace st @
       concat (map (step_events \<circ> fst) (interaction (Suc n) L s (world st))) @
       [Print i (foldl (+) acc (map (step_reward \<circ> fst) (interaction (Suc n) L s (world st)))),
        AgentUpdate (trs @ map (step_transition \<circ> fst) (interaction (Suc n) L s (world st))),
        AgentTrain 10]"
      unfolding iS using n ne nx by (simp add: step_events_def step_reward_def)
    then show ?thesis by (rule exI)
  qed
qed

lemma ppo_while_returns:
  "\<exists>x \<in> set (interaction fuel L s (world st)). step_ends (fst x) \<Longrightarrow>
   \<exists>st'. ppo_while fuel L i s acc trs st = Some st'"
proof (induction fuel arbitrary: s acc trs st)
  case 0
  then show ?case by simp
next
  case (Suc fuel)
  obtain a w1 where pa: "ppo_predict_action L s (world st) = (a, w1)"
    by (cases "ppo_predict_action L s (world st)")
  obtain s' r te tr w2 where es: "ppo_env_step L a w1 = ((s', r, te, tr), w2)"
    by (cases "ppo_env_step L a w1") auto
  show ?case
  proof (cases "te \<or> tr")
    case True
    with pa es show ?thesis by (simp add: Let_def)
  next
    case False
    let ?st1 = "st\<lparr>world := w2, trace := trace st @ [PredictAction s a, EnvStep a s' r te tr]\<rparr>"
    from False Suc.prems pa es have
      "\<exists>x \<in> set (interaction fuel L s' (world ?st1)). step_ends (fst x)"
      by (simp add: step_ends_def)
    from Suc.IH [OF this] obtain st' where
      "ppo_while fuel L i s' (acc + r)
         (trs @ [\<lparr>state = s, action = a, next_state = s', reward = r,
                  done_t = (if te then 1 else 0)\<rparr>]) ?st1 = Some st'"
      by blast
    with False pa es show ?thesis by (simp add: Let_def)
  qed
qed

text \<open>
  Claim C5. After \<open>env.reset\<close>, an episode of the PPO driver makes the calls of
  \<open>agent.predict_action\<close> and \<open>env.step\<close> one iteration after the other, and it returns as
  soon as a step reports terminated or truncated (within the bound on the iterations): the
  last iteration and only the last reports it. The state of the libraries after the
  episode is the one after the last step, then changed by one call of \<open>agent.update\<close> with
  the transitions of all the iterations, in order, then by one call of \<open>agent.train\<close> with
  \<open>n_epochs = 10\<close>; between the reset and the line printed the driver calls nothing but
  \<open>predict_action\<close> and \<open>step\<close>.
\<close>

theorem ppo_episode_update_then_train:
  "(ppo_env_reset L (world st) = (s0, w0) \<and>
    (\<exists>x \<in> set (interaction fuel L s0 w0). step_ends (fst x)) \<longrightarrow>
      (\<exists>st'. ppo_episode fuel L episode_idx st = Some st')) \<and>
   (ppo_episode fuel L episode_idx st = Some st' \<longrightarrow>
      (\<exists>s0 w0 n total.
         ppo_env_reset L (world st) = (s0, w0) \<and> 0 < n \<and> n \<le> fuel \<and>
         (\<forall>x \<in> set (butlast (interaction n L s0 w0)). \<not> step_ends (fst x)) \<and>
         step_ends (fst (last (interaction n L s0 w0))) \<and>
         world st' = ppo_train L 10
           (ppo_update L (map (step_transition \<circ> fst) (interaction n L s0 w0))
              (snd (last (interaction n L s0 w0)))) \<and>
         trace st' = trace st @ EnvReset s0 #
           concat (map (step_events \<circ> fst) (interaction n L s0 w0)) @
           [Print episode_idx total,
            AgentUpdate (map (step_transition \<circ> fst) (interaction n L s0 w0)),
            AgentTrain 10]))"
proof (intro conjI impI)
  assume h: "ppo_env_reset L (world st) = (s0, w0) \<and>
    (\<exists>x \<in> set (interaction fuel L s0 w0). step_ends (fst x))"
  let ?st0 = "st\<lparr>world := w0, trace := trace st @ [EnvReset s0]\<rparr>"
  from h have "\<exists>x \<in> set (interaction fuel L s0 (world ?st0)). step_ends (fst x)" by simp
  from ppo_while_returns [OF this] obtain st' where
    "ppo_while fuel L episode_idx s0 0 [] ?st0 = Some st'" by blast
  with h show "\<exists>st'. ppo_episode fuel L episode_idx st = Some st'"
    by (simp add: ppo_episode_def)
next
  assume e: "ppo_episode fuel L episode_idx st = Some st'"
  obtain s1 w1 where r: "ppo_env_reset L (world st) = (s1, w1)"
    by (cases "ppo_env_reset L (world st)")
  let ?st0 = "st\<lparr>world := w1, trace := trace st @ [EnvReset s1]\<rparr>"
  from e r have "ppo_while fuel L episode_idx s1 0 [] ?st0 = Some st'"
    by (simp add: ppo_episode_def)
  from ppo_while_run [OF this] obtain n where N: "0 < n \<and> n \<le> fuel \<and>
     (\<forall>x \<in> set (butlast (interaction n L s1 (world ?st0))). \<not> step_ends (fst x)) \<and>
     step_ends (fst (last (interaction n L s1 (world ?st0)))) \<and>
     world st' = ppo_train L 10
       (ppo_update L ([] @ map (step_transition \<circ> fst) (interaction n L s1 (world ?st0)))
          (snd (last (interaction n L s1 (world ?st0))))) \<and>
     trace st' = trace ?st0 @
       concat (map (step_events \<circ> fst) (interaction n L s1 (world ?st0))) @
       [Print episode_idx
          (foldl (+) 0 (map (step_reward \<circ> fst) (interaction n L s1 (world ?st0)))),
        AgentUpdate ([] @ map (step_transition \<circ> fst) (interaction n L s1 (world ?st0))),
        AgentTrain 10]" ..
  have w: "world ?st0 = w1" "trace ?st0 = trace st @ [EnvReset s1]" by simp_all
  note N' = N [unfolded w append_Nil append_assoc append_Cons]
  note n = conjunct1 [OF N'] conjunct1 [OF conjunct2 [OF N']]
    conjunct1 [OF conjunct2 [OF conjunct2 [OF N']]]
    conjunct1 [OF conjunct2 [OF conjunct2 [OF conjunct2 [OF N']]]]
    conjunct1 [OF conjunct2 [OF conjunct2 [OF conjunct2 [OF conjunct2 [OF N']]]]]
    conjunct2 [OF conjunct2 [OF conjunct2 [OF conjunct2 [OF conjunct2 [OF N']]]]]
  show "\<exists>s0 w0 n total.
         ppo_env_reset L (world st) = (s0, w0) \<and> 0 < n \<and> n \<le> fuel \<and>
         (\<forall>x \<in> set (butlast (interaction n L s0 w0)). \<not> step_ends (fst x)) \<and>
         step_ends (fst (last (interaction n L s0 w0))) \<and>
         world st' = ppo_train L 10
           (ppo_update L (map (step_transition \<circ> fst) (interaction n L s0 w0))
              (snd (last (interaction n L s0 w0)))) \<and>
         trace st' = trace st @ EnvReset s0 #
           concat (map (step_events \<circ> fst) (interaction n L s0 w0)) @
           [Print episode_idx total,
            AgentUpdate (map (step_transition \<circ> fst) (interaction n L s0 w0)),
            AgentTrain 10]"
    by (rule exI [of _ s1], rule exI [of _ w1], rule exI [of _ n],
        rule exI [of _ "foldl (+) 0 (map (step_reward \<circ> fst) (interaction n L s1 w1))"])
      (rule conjI [OF r conjI [OF n(1) conjI [OF n(2) conjI [OF n(3) conjI [OF n(4)
        conjI [OF n(5) n(6)]]]]]])
qed

theorem ppo_episode_update_then_train_witness:
  "ppo_env_reset demo_ppo_lib (world demo_ppo_st) = (0, (0, [])) \<and>
   (\<exists>st'. ppo_episode (Suc (Suc (Suc 0))) demo_ppo_lib 0 demo_ppo_st = Some st') \<and>
   ppo_episode (Suc (Suc (Suc 0))) demo_ppo_lib 0 demo_ppo_st = Some demo_ppo_st' \<and>
   (\<exists>s0 w0 n total.
      ppo_env_reset demo_ppo_lib (world demo_ppo_st) = (s0, w0) \<and> 0 < n \<and>
      n \<le> Suc (Suc (Suc 0)) \<and>
      (\<forall>x \<in> set (butlast (interaction n demo_ppo_lib s0 w0)). \<not> step_ends (fst x)) \<and>
      step_ends (fst (last (interaction n demo_ppo_lib s0 w0))) \<and>
      world demo_ppo_st' = ppo_train demo_ppo_lib 10
        (ppo_update demo_ppo_lib (map (step_transition \<circ> fst) (interaction n demo_ppo_lib s0 w0))
           (snd (last (interaction n demo_ppo_lib s0 w0)))) \<and>
      trace demo_ppo_st' = trace demo_ppo_st @ EnvReset s0 #
        concat (map (step_events \<circ> fst) (interaction n demo_ppo_lib s0 w0)) @
        [Print 0 total,
         AgentUpdate (map (step_transition \<circ> fst) (interaction n demo_ppo_lib s0 w0)),
         AgentTrain 10])"
proof -
  have r: "ppo_env_reset demo_ppo_lib (world demo_ppo_st) = (0, (0, []))"
    by (simp add: demo_ppo_lib_def demo_ppo_st_def)
  have x: "\<exists>x \<in> set (interaction (Suc (Suc (Suc 0))) demo_ppo_lib 0 (0, [])).
      step_ends (fst x)"
    by (simp add: demo_ppo_lib_def step_ends_def)
  note T = ppo_episode_update_then_train [of demo_ppo_lib demo_ppo_st 0 "(0, [])"
      "Suc (Suc (Suc 0))" 0 demo_ppo_st']
  note a = mp [OF conjunct1 [OF T] conjI [OF r x]]
  note b = mp [OF conjunct2 [OF T] demo_ppo_episode]
  show ?thesis by (rule conjI [OF r conjI [OF a conjI [OF demo_ppo_episode b]]])
qed



section \<open>Properties of the MADDPG demo\<close>











section \<open>The episode reward of both drivers\<close>







section \<open>Properties of the federated averaging\<close>

lemma tree_structure_length: "tree_structure t = tree_structure u \<Longrightarrow> length t = length u"
  unfolding tree_structure_def by (rule map_eq_imp_length_eq)

lemma tree_add_sound:
  "tree_map2 arr_add t u = Inr v \<Longrightarrow>
   tree_structure v = tree_structure t \<and> tree_structure u = tree_structure t \<and>
   (\<forall>i < length t. \<forall>j < length (arr_data (snd (t ! i))).
      leaf_at v i j = leaf_at t i j + leaf_at u i j)"
proof (induction t arbitrary: u v)
  case Nil
  then show ?case by (cases u) (auto simp: tree_structure_def)
next
  case (Cons kx t)
  obtain k x where kx: "kx = (k, x)" by (cases kx)
  from Cons.prems kx obtain k' y u' where u: "u = (k', y) # u'"
    by (cases u) auto
  from Cons.prems kx u have kk: "k = k'" by (simp split: if_splits)
  from Cons.prems kx u kk obtain z where z: "arr_add x y = Inr z"
    by (cases "arr_add x y") auto
  from Cons.prems kx u kk z obtain v' where
    v': "tree_map2 arr_add t u' = Inr v'" and v: "v = (k, z) # v'"
    by (cases "tree_map2 arr_add t u'") auto
  from z have zs: "arr_shape x = arr_shape y" "length (arr_data x) = length (arr_data y)"
    "z = Array (arr_shape x) (map (\<lambda>(u, v). u + v) (zip (arr_data x) (arr_data y)))"
    by (auto simp: arr_add_def split: if_splits)
  from Cons.IH [OF v'] have ih: "tree_structure v' = tree_structure t"
    "tree_structure u' = tree_structure t"
    "\<forall>i < length t. \<forall>j < length (arr_data (snd (t ! i))).
      leaf_at v' i j = leaf_at t i j + leaf_at u' i j" by auto
  have "tree_structure v = tree_structure (kx # t)"
    using ih(1) zs v kx by (simp add: tree_structure_def)
  moreover have "tree_structure u = tree_structure (kx # t)"
    using ih(2) zs kk kx u by (simp add: tree_structure_def)
  moreover have "leaf_at v i j = leaf_at (kx # t) i j + leaf_at u i j"
    if "i < length (kx # t)" "j < length (arr_data (snd ((kx # t) ! i)))" for i j
  proof (cases i)
    case 0
    with that zs v kx u show ?thesis by (simp add: leaf_at_def)
  next
    case (Suc i')
    with that ih(3) v kx u show ?thesis by (simp add: leaf_at_def)
  qed
  ultimately show ?case by blast
qed

lemma tree_structure_nth:
  "i < length t \<Longrightarrow>
   tree_structure t ! i = (fst (t ! i), arr_shape (snd (t ! i)), length (arr_data (snd (t ! i))))"
  by (simp add: tree_structure_def split_def)

lemma tree_structure_data_length:
  assumes "tree_structure t = tree_structure u" "i < length t"
  shows "length (arr_data (snd (u ! i))) = length (arr_data (snd (t ! i)))"
proof -
  have iu: "i < length u" using tree_structure_length [OF assms(1)] assms(2) by simp
  have "tree_structure t ! i = tree_structure u ! i" by (simp only: assms(1))
  then show ?thesis
    unfolding tree_structure_nth [OF assms(2)] tree_structure_nth [OF iu] by simp
qed

lemma train_client_sound:
  assumes "train_client L examples lr bs ep st = Inr (c, st1)"
  shows "params st1 = params st" "n_clients st1 = n_clients st" "np_random st1 = np_random st"
    "fed_trace st1 = fed_trace st @
       [SetTrainState (params st) lr, PrintTrainSize (length examples),
        Fit examples bs ep, ClientParams c]"
proof -
  from assms obtain w1 where w1: "fed_set_train_state L (params st) lr (lib st) = Inr w1"
    by (cases "fed_set_train_state L (params st) lr (lib st)") (auto simp: train_client_def)
  from assms w1 obtain w2 where w2: "fed_fit L examples bs ep w1 = Inr w2"
    by (cases "fed_fit L examples bs ep w1") (auto simp: train_client_def)
  from assms w1 w2 have c: "c = fed_trainer_params L w2"
    and st1: "st1 = st\<lparr>lib := w2,
           fed_trace := fed_trace st @
             [SetTrainState (params st) lr, PrintTrainSize (length examples),
              Fit examples bs ep, ClientParams (fed_trainer_params L w2)]\<rparr>"
    by (auto simp: train_client_def)
  show "params st1 = params st" "n_clients st1 = n_clients st" "np_random st1 = np_random st"
    "fed_trace st1 = fed_trace st @
       [SetTrainState (params st) lr, PrintTrainSize (length examples),
        Fit examples bs ep, ClientParams c]"
    unfolding st1 c by simp_all
qed

lemma run_clients_sound:
  "run_clients L A idxs acc st = Inr (acc', st') \<Longrightarrow>
   \<exists>cs. length cs = length idxs \<and>
     fed_trace st' = fed_trace st @ concat (map (client_events A (params st)) (zip idxs cs)) \<and>
     params st' = params st \<and> n_clients st' = n_clients st \<and> np_random st' = np_random st \<and>
     (\<forall>i \<in> set idxs. i < length (client_train_datasets A)) \<and>
     tree_structure acc' = tree_structure acc \<and>
     (\<forall>c \<in> set cs. tree_structure c = tree_structure acc) \<and>
     (\<forall>i < length acc. \<forall>j < length (arr_data (snd (acc ! i))).
        leaf_at acc' i j = leaf_at acc i j + (\<Sum>c\<leftarrow>cs. leaf_at c i j))"
proof (induction idxs arbitrary: acc st)
  case Nil
  then show ?case by simp
next
  case (Cons idx rest)
  from Cons.prems have lt: "idx < length (client_train_datasets A)"
    by (auto simp: list_get_def split: if_splits)
  let ?ex = "client_train_datasets A ! idx"
  from Cons.prems lt obtain c st1 where
    tc: "train_client L ?ex (learning_rate A) (per_device_batch_size A)
           (n_client_epochs_per_round A) st = Inr (c, st1)"
    by (auto simp: list_get_def split: sum.splits)
  from Cons.prems lt tc obtain acc1 where
    ta: "tree_map2 arr_add acc c = Inr acc1"
    by (auto simp: list_get_def split: sum.splits)
  from Cons.prems lt tc ta have rc: "run_clients L A rest acc1 st1 = Inr (acc', st')"
    by (simp add: list_get_def)
  have p1: "params st1 = params st" "n_clients st1 = n_clients st"
    "np_random st1 = np_random st"
    "fed_trace st1 = fed_trace st @ client_events A (params st) (idx, c)"
    using train_client_sound [OF tc] by (simp_all add: client_events_def)
  from tree_add_sound [OF ta] have ts: "tree_structure acc1 = tree_structure acc"
    "tree_structure c = tree_structure acc"
    "\<And>i j. i < length acc \<Longrightarrow> j < length (arr_data (snd (acc ! i))) \<Longrightarrow>
      leaf_at acc1 i j = leaf_at acc i j + leaf_at c i j" by auto
  from Cons.IH [OF rc] obtain cs where cs: "length cs = length rest"
    "fed_trace st' = fed_trace st1 @ concat (map (client_events A (params st1)) (zip rest cs))"
    "params st' = params st1" "n_clients st' = n_clients st1" "np_random st' = np_random st1"
    "\<forall>i \<in> set rest. i < length (client_train_datasets A)"
    "tree_structure acc' = tree_structure acc1"
    "\<forall>c \<in> set cs. tree_structure c = tree_structure acc1"
    "\<And>i j. i < length acc1 \<Longrightarrow> j < length (arr_data (snd (acc1 ! i))) \<Longrightarrow>
        leaf_at acc' i j = leaf_at acc1 i j + (\<Sum>c\<leftarrow>cs. leaf_at c i j)"
    by blast
  have "length (c # cs) = length (idx # rest)" using cs(1) by simp
  moreover have "fed_trace st' = fed_trace st @
      concat (map (client_events A (params st)) (zip (idx # rest) (c # cs)))"
    using cs(2) p1 by simp
  moreover have "params st' = params st" "n_clients st' = n_clients st"
    "np_random st' = np_random st"
    using cs(3,4,5) p1 by simp_all
  moreover have "\<forall>i \<in> set (idx # rest). i < length (client_train_datasets A)"
    using cs(6) lt by simp
  moreover have "tree_structure acc' = tree_structure acc" using cs(7) ts(1) by simp
  moreover have "\<forall>c \<in> set (c # cs). tree_structure c = tree_structure acc"
    using cs(8) ts(1,2) by simp
  moreover have "leaf_at acc' i j = leaf_at acc i j + (\<Sum>c\<leftarrow>c # cs. leaf_at c i j)"
    if "i < length acc" "j < length (arr_data (snd (acc ! i)))" for i j
  proof -
    have "i < length acc1" using tree_structure_length [OF ts(1)] that(1) by simp
    moreover from that tree_structure_data_length [OF ts(1) [symmetric] that(1)]
    have "j < length (arr_data (snd (acc1 ! i)))" by simp
    ultimately have "leaf_at acc' i j = leaf_at acc1 i j + (\<Sum>c\<leftarrow>cs. leaf_at c i j)"
      by (rule cs(9))
    with ts(3) [OF that] show ?thesis by simp
  qed
  ultimately show ?case by blast
qed

lemma random_interval_le: "random_interval m g = (j, g') \<Longrightarrow> j \<le> m"
  by (auto simp: random_interval_def)

lemma shuffle_from_mset:
  "i < length x \<Longrightarrow> shuffle_from i x g = (y, g') \<Longrightarrow> mset y = mset x"
proof (induction i arbitrary: x g)
  case 0
  then show ?case by simp
next
  case (Suc i)
  obtain j g1 where r: "random_interval (Suc i) g = (j, g1)"
    by (cases "random_interval (Suc i) g")
  from random_interval_le [OF r] Suc.prems(1) have j: "j < length x" by simp
  let ?x' = "x[Suc i := x ! j, j := x ! Suc i]"
  from Suc.prems(2) r have "shuffle_from i ?x' g1 = (y, g')" by simp
  moreover from Suc.prems(1) have "i < length ?x'" by simp
  ultimately have "mset y = mset ?x'" by (rule Suc.IH [rotated])
  also from Suc.prems(1) j have "mset ?x' = mset x" by (simp add: mset_swap)
  finally show ?case .
qed

lemma permutation_mset: "permutation n g = (idx, g') \<Longrightarrow> mset idx = mset [0..<n]"
proof (cases n)
  case 0
  assume "permutation n g = (idx, g')"
  with 0 show ?thesis by (simp add: permutation_def)
next
  case (Suc m)
  assume "permutation n g = (idx, g')"
  with Suc have "shuffle_from m [0..<Suc m] g = (idx, g')" by (simp add: permutation_def)
  from shuffle_from_mset [OF _ this] Suc show ?thesis by simp
qed

lemma choice_ok:
  assumes "choice (arange n) k g = Inr (idxs, g')"
  shows "int (length idxs) = k" "distinct idxs" "\<forall>i \<in> set idxs. 0 \<le> int i \<and> int i < n"
proof -
  obtain idx g1 where p: "permutation (length (arange n)) g = (idx, g1)"
    by (cases "permutation (length (arange n)) g")
  from assms p have k: "0 \<le> k" "k \<le> int (length (arange n))"
    and idxs: "idxs = map (\<lambda>i. arange n ! i) (take (nat k) idx)"
    by (auto simp: choice_def Let_def split: if_splits)
  from permutation_mset [OF p] have m: "mset idx = mset [0..<nat n]"
    by (simp add: arange_def)
  have d: "distinct idx" using mset_eq_imp_distinct_iff [OF m] by simp
  have s: "set idx = {0..<nat n}" using mset_eq_setD [OF m] by simp
  have l: "length idx = nat n" using mset_eq_length [OF m] by simp
  have "map (\<lambda>i. arange n ! i) (take (nat k) idx) = take (nat k) idx"
    using s by (intro map_idI) (auto simp: arange_def dest!: in_set_takeD)
  with idxs have e: "idxs = take (nat k) idx" by simp
  from k l show "int (length idxs) = k" unfolding e by (auto simp: arange_def split: if_splits)
  from d show "distinct idxs" unfolding e by simp
  from s show "\<forall>i \<in> set idxs. 0 \<le> int i \<and> int i < n"
    unfolding e by (auto dest!: in_set_takeD)
qed

lemma choice_le:
  "choice (arange n) k g = Inr (idxs, g') \<Longrightarrow> 0 \<le> n \<Longrightarrow> k \<le> n"
  by (auto simp: choice_def Let_def arange_def split: if_splits prod.splits)

lemma choice_fails:
  "0 \<le> n \<Longrightarrow> n < k \<Longrightarrow> choice (arange n) k g = Inl ValueError"
  by (auto simp: choice_def Let_def arange_def)

lemma choice_succeeds:
  "0 \<le> k \<Longrightarrow> k \<le> n \<Longrightarrow> \<exists>idxs g'. choice (arange n) k g = Inr (idxs, g')"
  by (auto simp: choice_def Let_def arange_def split: prod.splits)

lemma tree_structure_zeros: "tree_structure (tree_map zeros_like p) = tree_structure p"
  by (simp add: tree_structure_def tree_map_def zeros_like_def split_def)

lemma leaf_at_zeros:
  "i < length p \<Longrightarrow> j < length (arr_data (snd (p ! i))) \<Longrightarrow>
   leaf_at (tree_map zeros_like p) i j = 0"
  by (simp add: leaf_at_def tree_map_def zeros_like_def split_def)

lemma tree_structure_div: "tree_structure (tree_map (\<lambda>x. arr_div x n) t) = tree_structure t"
  by (simp add: tree_structure_def tree_map_def arr_div_def split_def)

lemma leaf_at_div:
  "i < length t \<Longrightarrow> j < length (arr_data (snd (t ! i))) \<Longrightarrow>
   leaf_at (tree_map (\<lambda>x. arr_div x n) t) i j = leaf_at t i j / real_of_int n"
  by (simp add: leaf_at_def tree_map_def arr_div_def split_def)

lemma test_sound:
  assumes "test L examples bs st = Inr ((acc, conf_mat), st2)"
  shows "params st2 = params st" "n_clients st2 = n_clients st" "np_random st2 = np_random st"
    "fed_trace st2 = fed_trace st @ [Predict examples bs (params st)]"
proof -
  from assms obtain w1 where
    "st2 = st\<lparr>lib := w1, fed_trace := fed_trace st @ [Predict examples bs (params st)]\<rparr>"
    by (auto simp: test_def split: sum.splits)
  then show "params st2 = params st" "n_clients st2 = n_clients st"
    "np_random st2 = np_random st"
    "fed_trace st2 = fed_trace st @ [Predict examples bs (params st)]"
    by simp_all
qed

lemma client_results_append:
  "client_results (xs @ ys) = client_results xs @ client_results ys"
  by (induction xs rule: client_results.induct) simp_all

lemma client_results_events:
  "length cs = length idxs \<Longrightarrow>
   client_results (concat (map (client_events A p) (zip idxs cs))) = cs"
  by (induction idxs cs rule: list_induct2') (simp_all add: client_events_def)

lemma run_round_sound:
  fixes L :: "('w, 'e, 'v, 'm) fed_lib"
  assumes "run_round L A r st = Inr st'"
  shows "\<exists>idxs g' cs acc conf_mat.
     choice (arange (n_clients st)) (n_clients_per_round A) (np_random st) = Inr (idxs, g') \<and>
     length cs = length idxs \<and>
     fed_trace st' = fed_trace st @ concat (map (client_events A (params st)) (zip idxs cs)) @
       [Predict (eval_dataset A) (eval_per_device_batch_size A) (params st'),
        PrintRound r acc conf_mat] \<and>
     n_clients st' = n_clients st \<and> np_random st' = g' \<and>
     (\<forall>i \<in> set idxs. i < length (client_train_datasets A)) \<and>
     n_clients_per_round A \<noteq> 0 \<and>
     tree_structure (params st') = tree_structure (params st) \<and>
     (\<forall>c \<in> set cs. tree_structure c = tree_structure (params st)) \<and>
     (\<forall>i < length (params st). \<forall>j < length (arr_data (snd (params st ! i))).
        leaf_at (params st') i j =
          (\<Sum>c\<leftarrow>cs. leaf_at c i j) / real_of_int (n_clients_per_round A))"
proof -
  let ?k = "n_clients_per_round A"
  from assms obtain idxs g' where
    ch: "choice (arange (n_clients st)) ?k (np_random st) = Inr (idxs, g')"
    by (auto simp: run_round_def split: sum.splits)
  let ?z = "tree_map zeros_like (params st)"
  let ?st0 = "st\<lparr>np_random := g'\<rparr>"
  from assms ch obtain sm st1 where rc: "run_clients L A idxs ?z ?st0 = Inr (sm, st1)"
    by (auto simp: run_round_def split: sum.splits)
  from assms ch rc obtain new_params where td: "tree_div sm ?k = (Inr new_params :: 'e error + pytree)"
    by (auto simp: run_round_def split: sum.splits)
  then have k0: "?k \<noteq> 0" and np: "new_params = tree_map (\<lambda>x. arr_div x ?k) sm"
    by (auto simp: tree_div_def split: if_splits)
  from assms ch rc td obtain acc conf_mat st2 where
    te: "test L (eval_dataset A) (eval_per_device_batch_size A) (st1\<lparr>params := new_params\<rparr>) =
           Inr ((acc, conf_mat), st2)"
    and st': "st' = st2\<lparr>fed_trace := fed_trace st2 @ [PrintRound r acc conf_mat]\<rparr>"
    by (auto simp: run_round_def split: sum.splits)
  from run_clients_sound [OF rc] obtain cs where cs: "length cs = length idxs"
    "fed_trace st1 = fed_trace st @ concat (map (client_events A (params st)) (zip idxs cs))"
    "n_clients st1 = n_clients st" "np_random st1 = g'"
    "\<forall>i \<in> set idxs. i < length (client_train_datasets A)"
    "tree_structure sm = tree_structure ?z"
    "\<forall>c \<in> set cs. tree_structure c = tree_structure ?z"
    "\<And>i j. i < length ?z \<Longrightarrow> j < length (arr_data (snd (?z ! i))) \<Longrightarrow>
        leaf_at sm i j = leaf_at ?z i j + (\<Sum>c\<leftarrow>cs. leaf_at c i j)"
    by auto
  note t = test_sound [OF te]
  have p': "params st' = new_params" using st' t(1) by simp
  have a: "fed_trace st' = fed_trace st @ concat (map (client_events A (params st)) (zip idxs cs)) @
       [Predict (eval_dataset A) (eval_per_device_batch_size A) (params st'),
        PrintRound r acc conf_mat]"
    using st' t(1,4) cs(2) by simp
  have b: "n_clients st' = n_clients st" "np_random st' = g'"
    using st' t(2,3) cs(3,4) by simp_all
  have c: "tree_structure (params st') = tree_structure (params st)"
    unfolding p' np by (simp add: tree_structure_div cs(6) tree_structure_zeros)
  have d: "\<forall>c \<in> set cs. tree_structure c = tree_structure (params st)"
    using cs(7) by (simp add: tree_structure_zeros)
  have e: "leaf_at (params st') i j = (\<Sum>c\<leftarrow>cs. leaf_at c i j) / real_of_int ?k"
    if "i < length (params st)" "j < length (arr_data (snd (params st ! i)))" for i j
  proof -
    have sz: "tree_structure sm = tree_structure (params st)"
      using cs(6) by (simp add: tree_structure_zeros)
    have lz: "length ?z = length (params st)" by (simp add: tree_map_def)
    have iz: "i < length ?z" using that(1) lz by simp
    have jz: "j < length (arr_data (snd (?z ! i)))"
      using that by (simp add: tree_map_def zeros_like_def split_def)
    have "leaf_at sm i j = (\<Sum>c\<leftarrow>cs. leaf_at c i j)"
      using cs(8) [OF iz jz] leaf_at_zeros [OF that] by simp
    moreover have "i < length sm" using tree_structure_length [OF sz] that(1) by simp
    moreover have "j < length (arr_data (snd (sm ! i)))"
      using tree_structure_data_length [OF sz [symmetric] that(1)] that(2) by simp
    ultimately show ?thesis unfolding p' np by (simp add: leaf_at_div)
  qed
  from ch cs(1) a b cs(5) k0 c d e show ?thesis by blast
qed

lemma demo_choice: "choice (arange 3) 2 (\<lambda>i. i) = Inr ([2, 1], \<lambda>i. Suc (Suc i))"
proof -
  have "shuffle_from (Suc (Suc 0)) [0, Suc 0, Suc (Suc 0)] (\<lambda>i. i) =
      ([Suc (Suc 0), Suc 0, 0], \<lambda>i. Suc (Suc i))"
    by (simp add: random_interval_def)
  moreover have "[0..<3] = [0, Suc 0, Suc (Suc 0)]" "(3::nat) - 1 = Suc (Suc 0)"
    by (simp_all add: eval_nat_numeral upt_conv_Cons)
  ultimately have "permutation 3 (\<lambda>i. i) = ([Suc (Suc 0), Suc 0, 0], \<lambda>i. Suc (Suc i))"
    by (simp only: permutation_def)
  moreover have "arange 3 = [0, Suc 0, Suc (Suc 0)]"
    by (simp add: arange_def eval_nat_numeral upt_conv_Cons)
  ultimately show ?thesis
    by (simp add: choice_def Let_def eval_nat_numeral)
qed

lemma demo_train_client_2:
  "train_client demo_fed_lib [demo_example, demo_example, demo_example] (1 / 1000) 10 5
     (demo_fed_st\<lparr>np_random := \<lambda>i. Suc (Suc i)\<rparr>) =
   Inr ([(''w'', Array [2] [4, 5])],
        demo_fed_st\<lparr>np_random := \<lambda>i. Suc (Suc i), lib := [(''w'', Array [2] [4, 5])],
          fed_trace := take 4 demo_fed_trace\<rparr>)"
  by (simp add: train_client_def demo_fed_lib_def demo_fed_st_def demo_fit_def tree_map_def
      demo_params_def demo_fed_trace_def)

lemma demo_run_clients:
  "run_clients demo_fed_lib demo_run_args [2, 1] (tree_map zeros_like demo_params)
     (demo_fed_st\<lparr>np_random := \<lambda>i. Suc (Suc i)\<rparr>) =
   Inr ([(''w'', Array [2] [7, 9])],
        demo_fed_st\<lparr>np_random := \<lambda>i. Suc (Suc i), lib := [(''w'', Array [2] [3, 4])],
          fed_trace := demo_fed_trace\<rparr>)"
  by (simp add: train_client_def demo_fed_lib_def demo_fed_st_def demo_fit_def tree_map_def
      demo_params_def demo_fed_trace_def demo_run_args_def list_get_def zeros_like_def
      arr_add_def)

lemma demo_test:
  "test demo_fed_lib [demo_example] 100
     (demo_fed_st\<lparr>np_random := \<lambda>i. Suc (Suc i), lib := [(''w'', Array [2] [3, 4])],
          fed_trace := demo_fed_trace, params := [(''w'', Array [2] [7 / 2, 9 / 2])]\<rparr>) =
   Inr ((1, 1), demo_fed_st'\<lparr>fed_trace := demo_fed_trace @
        [Predict [demo_example] 100 [(''w'', Array [2] [7 / 2, 9 / 2])]]\<rparr>)"
  by (simp add: test_def demo_fed_lib_def demo_fed_st_def demo_fed_st'_def demo_example_def
      getitem_def)

lemma demo_tree_div:
  "tree_div [(''w'', Array [2] [7, 9])] 2 = Inr [(''w'', Array [2] [7 / 2, 9 / 2])]"
  by (simp add: tree_div_def tree_map_def arr_div_def)

lemma demo_run_round: "run_round demo_fed_lib demo_run_args 0 demo_fed_st = Inr demo_fed_st'"
proof -
  have a: "n_clients demo_fed_st = 3" "np_random demo_fed_st = (\<lambda>i. i)"
    "params demo_fed_st = demo_params" "n_clients_per_round demo_run_args = 2"
    "eval_dataset demo_run_args = [demo_example]"
    "eval_per_device_batch_size demo_run_args = 100"
    by (simp_all add: demo_fed_st_def demo_run_args_def)
  have c: "demo_fed_st'\<lparr>fed_trace := demo_fed_trace @
        [Predict [demo_example] 100 [(''w'', Array [2] [7 / 2, 9 / 2])]]\<rparr>
      \<lparr>fed_trace := fed_trace (demo_fed_st'\<lparr>fed_trace := demo_fed_trace @
        [Predict [demo_example] 100 [(''w'', Array [2] [7 / 2, 9 / 2])]]\<rparr>) @
          [PrintRound 0 1 1]\<rparr> = demo_fed_st'"
    by (simp add: demo_fed_st'_def)
  show ?thesis
    unfolding run_round_def a
    by (simp only: demo_choice demo_run_clients demo_tree_div demo_test c
        sum.case prod.case)
qed

lemma train_client_lib:
  fixes L :: "('w, 'e, 'v, 'm) fed_lib"
  assumes "train_client L examples lr bs ep st = Inr (c, st1)"
  shows "\<exists>w1. fed_set_train_state L (params st) lr (lib st) = Inr w1 \<and>
     fed_fit L examples bs ep w1 = Inr (lib st1) \<and> c = fed_trainer_params L (lib st1)"
  using assms by (auto simp: train_client_def split: sum.splits)

lemma run_clients_sequential:
  fixes L :: "('w, 'e, 'v, 'm) fed_lib"
  shows "run_clients L A idxs acc st = Inr (acc', st') \<Longrightarrow>
   \<exists>cs. sequential_training L A (params st) idxs (lib st) = Inr (cs, lib st') \<and>
     client_results (fed_trace st') = client_results (fed_trace st) @ cs"
proof (induction idxs arbitrary: acc st)
  case Nil
  then show ?case by simp
next
  case (Cons idx rest)
  from Cons.prems have lt: "idx < length (client_train_datasets A)"
    by (auto simp: list_get_def split: if_splits)
  let ?ex = "client_train_datasets A ! idx"
  from Cons.prems lt obtain c st1 where
    tc: "train_client L ?ex (learning_rate A) (per_device_batch_size A)
           (n_client_epochs_per_round A) st = Inr (c, st1)"
    by (auto simp: list_get_def split: sum.splits)
  from Cons.prems lt tc obtain acc1 where
    ta: "tree_map2 arr_add acc c = Inr acc1"
    by (auto simp: list_get_def split: sum.splits)
  from Cons.prems lt tc ta have rc: "run_clients L A rest acc1 st1 = Inr (acc', st')"
    by (simp add: list_get_def)
  from train_client_lib [OF tc] obtain w1 where w1:
    "fed_set_train_state L (params st) (learning_rate A) (lib st) = Inr w1"
    "fed_fit L ?ex (per_device_batch_size A) (n_client_epochs_per_round A) w1 = Inr (lib st1)"
    "c = fed_trainer_params L (lib st1)" by blast
  note s1 = train_client_sound [OF tc]
  from Cons.IH [OF rc] obtain cs where cs:
    "sequential_training L A (params st1) rest (lib st1) = Inr (cs, lib st')"
    "client_results (fed_trace st') = client_results (fed_trace st1) @ cs" by blast
  have "sequential_training L A (params st) (idx # rest) (lib st) = Inr (c # cs, lib st')"
    using w1 cs(1) s1(1) by simp
  moreover have "client_results (fed_trace st') = client_results (fed_trace st) @ c # cs"
    using cs(2) s1(4) by (simp add: client_results_append)
  ultimately show ?case by blast
qed

lemma test_lib:
  fixes L :: "('w, 'e, 'v, 'm) fed_lib"
  assumes "test L examples bs st = Inr (res, st2)"
  shows "\<exists>preds. fed_predict L examples bs (params st) (lib st) = Inr (preds, lib st2)"
  using assms by (auto simp: test_def split: sum.splits)



text \<open>
  Claim C9. The indices \<open>np.random.choice\<close> returns for a round are \<open>n_clients_per_round\<close>
  in number, pairwise distinct, and each at least \<open>0\<close> and less than \<open>n_clients\<close>; a round
  that succeeds has made such a selection. With \<open>0 \<le> n_clients\<close>, the selection exists
  only when \<open>n_clients_per_round \<le> n_clients\<close>, it exists whenever
  \<open>0 \<le> n_clients_per_round \<le> n_clients\<close>, and when \<open>n_clients < n_clients_per_round\<close> the
  call raises \<open>ValueError\<close> and the round fails with it.
\<close>

theorem round_client_idxes_distinct_in_range:
  fixes L :: "('w, 'e, 'v, 'm) fed_lib"
  shows
  "(choice (arange (n_clients st)) (n_clients_per_round A) (np_random st) = Inr (idxs, g') \<longrightarrow>
      int (length idxs) = n_clients_per_round A \<and> distinct idxs \<and>
      (\<forall>i \<in> set idxs. 0 \<le> int i \<and> int i < n_clients st) \<and>
      (0 \<le> n_clients st \<longrightarrow> n_clients_per_round A \<le> n_clients st)) \<and>
   (run_round L A round_idx st = Inr st' \<longrightarrow>
      (\<exists>idxs g'. choice (arange (n_clients st)) (n_clients_per_round A) (np_random st) =
         Inr (idxs, g'))) \<and>
   (0 \<le> n_clients_per_round A \<and> n_clients_per_round A \<le> n_clients st \<longrightarrow>
      (\<exists>idxs g'. choice (arange (n_clients st)) (n_clients_per_round A) (np_random st) =
         Inr (idxs, g'))) \<and>
   (0 \<le> n_clients st \<and> n_clients st < n_clients_per_round A \<longrightarrow>
      choice (arange (n_clients st)) (n_clients_per_round A) (np_random st) = Inl ValueError \<and>
      run_round L A round_idx st = Inl (Builtin ValueError))"
proof (intro conjI impI)
  assume c: "choice (arange (n_clients st)) (n_clients_per_round A) (np_random st) =
    Inr (idxs, g')"
  from choice_ok [OF c] show "int (length idxs) = n_clients_per_round A" "distinct idxs"
    "\<forall>i \<in> set idxs. 0 \<le> int i \<and> int i < n_clients st" .
  assume "0 \<le> n_clients st"
  with choice_le [OF c] show "n_clients_per_round A \<le> n_clients st" .
next
  assume "run_round L A round_idx st = Inr st'"
  from run_round_sound [OF this]
  show "\<exists>idxs g'. choice (arange (n_clients st)) (n_clients_per_round A) (np_random st) =
         Inr (idxs, g')" by blast
next
  assume "0 \<le> n_clients_per_round A \<and> n_clients_per_round A \<le> n_clients st"
  then show "\<exists>idxs g'. choice (arange (n_clients st)) (n_clients_per_round A) (np_random st) =
         Inr (idxs, g')" by (simp add: choice_succeeds)
next
  assume "0 \<le> n_clients st \<and> n_clients st < n_clients_per_round A"
  then have f: "choice (arange (n_clients st)) (n_clients_per_round A) (np_random st) =
      Inl ValueError" by (simp add: choice_fails)
  then show "choice (arange (n_clients st)) (n_clients_per_round A) (np_random st) =
      Inl ValueError" .
  from f show "run_round L A round_idx st = Inl (Builtin ValueError)"
    by (simp add: run_round_def)
qed

theorem round_client_idxes_distinct_in_range_witness:
  "choice (arange (n_clients demo_fed_st)) (n_clients_per_round demo_run_args)
      (np_random demo_fed_st) = Inr ([2, 1], \<lambda>i. Suc (Suc i)) \<and>
   int (length [2, 1 :: nat]) = n_clients_per_round demo_run_args \<and>
   distinct [2, 1 :: nat] \<and>
   0 \<le> n_clients demo_fed_st \<and>
   0 \<le> n_clients_per_round demo_run_args \<and>
   n_clients_per_round demo_run_args \<le> n_clients demo_fed_st \<and>
   run_round demo_fed_lib demo_run_args 0 demo_fed_st = Inr demo_fed_st' \<and>
   n_clients demo_fed_st < n_clients_per_round (demo_run_args\<lparr>n_clients_per_round := 5\<rparr>) \<and>
   run_round demo_fed_lib (demo_run_args\<lparr>n_clients_per_round := 5\<rparr>) 0 demo_fed_st =
     Inl (Builtin ValueError)"
proof -
  have a: "n_clients demo_fed_st = 3" "np_random demo_fed_st = (\<lambda>i. i)"
    "n_clients_per_round demo_run_args = 2"
    by (simp_all add: demo_fed_st_def demo_run_args_def)
  have c: "choice (arange (n_clients demo_fed_st)) (n_clients_per_round demo_run_args)
      (np_random demo_fed_st) = Inr ([2, 1], \<lambda>i. Suc (Suc i))"
    unfolding a by (rule demo_choice)
  have h: "0 \<le> n_clients demo_fed_st \<and>
      n_clients demo_fed_st < n_clients_per_round (demo_run_args\<lparr>n_clients_per_round := 5\<rparr>)"
    by (simp add: a)
  from round_client_idxes_distinct_in_range
      [of demo_fed_st demo_run_args "[2, 1]" "\<lambda>i. Suc (Suc i)" demo_fed_lib 0 demo_fed_st']
    round_client_idxes_distinct_in_range
      [of demo_fed_st "demo_run_args\<lparr>n_clients_per_round := 5\<rparr>" "[]" "\<lambda>i. i"
          demo_fed_lib 0 demo_fed_st']
    c h demo_run_round
  show ?thesis by (simp add: a)
qed

lemma run_round_parts:
  fixes L :: "('w, 'e, 'v, 'm) fed_lib"
  assumes "run_round L A r st = Inr st'"
  shows "\<exists>idxs g' sm st1 new_params acc conf_mat st2.
     choice (arange (n_clients st)) (n_clients_per_round A) (np_random st) = Inr (idxs, g') \<and>
     run_clients L A idxs (tree_map zeros_like (params st)) (st\<lparr>np_random := g'\<rparr>) =
       Inr (sm, st1) \<and>
     tree_div sm (n_clients_per_round A) = (Inr new_params :: 'e error + pytree) \<and>
     test L (eval_dataset A) (eval_per_device_batch_size A) (st1\<lparr>params := new_params\<rparr>) =
       Inr ((acc, conf_mat), st2) \<and>
     st' = st2\<lparr>fed_trace := fed_trace st2 @ [PrintRound r acc conf_mat]\<rparr>"
  using assms by (auto simp: run_round_def split: sum.splits)

text \<open>
  Claim C8. In a round that completes, the calls into the library are, for each selected
  client in the order of the selection, \<open>set_train_state\<close> with the parameters the round
  began with, then \<open>fit\<close> on the data of that client, then the reading of the trained
  parameters, each call made in the state of the library that the call before it left; the
  prediction on the evaluation data follows the last client. Nothing else is called.
\<close>

theorem clients_trained_one_after_another:
  fixes L :: "('w, 'e, 'v, 'm) fed_lib"
  assumes "run_round L A round_idx st = Inr st'"
  shows "\<exists>idxs g' cs w preds acc conf_mat.
     choice (arange (n_clients st)) (n_clients_per_round A) (np_random st) = Inr (idxs, g') \<and>
     sequential_training L A (params st) idxs (lib st) = Inr (cs, w) \<and>
     fed_predict L (eval_dataset A) (eval_per_device_batch_size A) (params st') w =
       Inr (preds, lib st') \<and>
     fed_trace st' = fed_trace st @ concat (map (client_events A (params st)) (zip idxs cs)) @
       [Predict (eval_dataset A) (eval_per_device_batch_size A) (params st'),
        PrintRound round_idx acc conf_mat]"
proof -
  from run_round_parts [OF assms] obtain idxs g' sm st1 new_params acc conf_mat st2 where p:
    "choice (arange (n_clients st)) (n_clients_per_round A) (np_random st) = Inr (idxs, g')"
    "run_clients L A idxs (tree_map zeros_like (params st)) (st\<lparr>np_random := g'\<rparr>) =
       Inr (sm, st1)"
    "test L (eval_dataset A) (eval_per_device_batch_size A) (st1\<lparr>params := new_params\<rparr>) =
       Inr ((acc, conf_mat), st2)"
    "st' = st2\<lparr>fed_trace := fed_trace st2 @ [PrintRound round_idx acc conf_mat]\<rparr>"
    by blast
  let ?st0 = "st\<lparr>np_random := g'\<rparr>"
  from run_clients_sound [OF p(2)] obtain cs where cs: "length cs = length idxs"
    "fed_trace st1 = fed_trace ?st0 @ concat (map (client_events A (params ?st0)) (zip idxs cs))"
    by blast
  from run_clients_sequential [OF p(2)] obtain cs' where cs':
    "sequential_training L A (params ?st0) idxs (lib ?st0) = Inr (cs', lib st1)"
    "client_results (fed_trace st1) = client_results (fed_trace ?st0) @ cs'" by blast
  have "cs' = cs"
    using cs'(2) cs(1) unfolding cs(2)
    by (simp add: client_results_append client_results_events)
  with cs'(1) have a: "sequential_training L A (params st) idxs (lib st) = Inr (cs, lib st1)"
    by simp
  note t = test_sound [OF p(3)]
  have ps: "params st' = new_params" using p(4) t(1) by simp
  from test_lib [OF p(3)] obtain preds where
    "fed_predict L (eval_dataset A) (eval_per_device_batch_size A) new_params (lib st1) =
       Inr (preds, lib st2)" by auto
  then have b: "fed_predict L (eval_dataset A) (eval_per_device_batch_size A) (params st')
      (lib st1) = Inr (preds, lib st')" using p(4) ps by simp
  have c: "fed_trace st' = fed_trace st @
      concat (map (client_events A (params st)) (zip idxs cs)) @
       [Predict (eval_dataset A) (eval_per_device_batch_size A) (params st'),
        PrintRound round_idx acc conf_mat]"
    using p(4) t(4) cs(2) ps by simp
  from p(1) a b c show ?thesis by blast
qed

theorem clients_trained_one_after_another_witness:
  "run_round demo_fed_lib demo_run_args 0 demo_fed_st = Inr demo_fed_st' \<and>
   (\<exists>idxs g' cs w preds acc conf_mat.
     choice (arange (n_clients demo_fed_st)) (n_clients_per_round demo_run_args)
       (np_random demo_fed_st) = Inr (idxs, g') \<and>
     sequential_training demo_fed_lib demo_run_args (params demo_fed_st) idxs
       (lib demo_fed_st) = Inr (cs, w) \<and>
     fed_predict demo_fed_lib (eval_dataset demo_run_args)
       (eval_per_device_batch_size demo_run_args) (params demo_fed_st') w =
       Inr (preds, lib demo_fed_st') \<and>
     fed_trace demo_fed_st' = fed_trace demo_fed_st @
       concat (map (client_events demo_run_args (params demo_fed_st)) (zip idxs cs)) @
       [Predict (eval_dataset demo_run_args) (eval_per_device_batch_size demo_run_args)
          (params demo_fed_st'),
        PrintRound 0 acc conf_mat])"
  by (rule conjI [OF demo_run_round clients_trained_one_after_another [OF demo_run_round]])

text \<open>
  Claim C2 as the code has it. \<open>train_client\<close>, \<open>test\<close> and the loop over the clients of a
  round leave the parameters of the server as they were, so in a round every call of
  \<open>set_train_state\<close> receives the parameters the round began with. (The round itself then
  assigns the average to \<open>self._params\<close>: see the counterexample and claim C1.)
\<close>

theorem server_params_unchanged_by_training_and_test:
  fixes L :: "('w, 'e, 'v, 'm) fed_lib"
  shows
  "(train_client L examples lr batch_size n_epochs st = Inr (c, st1) \<longrightarrow>
      params st1 = params st) \<and>
   (test L examples batch_size st = Inr (res, st2) \<longrightarrow> params st2 = params st) \<and>
   (run_clients L A idxs acc st = Inr (acc', st3) \<longrightarrow> params st3 = params st) \<and>
   (run_round L A round_idx st = Inr st' \<longrightarrow>
      (\<exists>evs. fed_trace st' = fed_trace st @ evs \<and>
         (\<forall>p lr'. SetTrainState p lr' \<in> set evs \<longrightarrow> p = params st)))"
proof (intro conjI impI)
  assume "train_client L examples lr batch_size n_epochs st = Inr (c, st1)"
  from train_client_sound(1) [OF this] show "params st1 = params st" .
next
  assume "test L examples batch_size st = Inr (res, st2)"
  then show "params st2 = params st" by (cases res) (simp add: test_sound(1))
next
  assume "run_clients L A idxs acc st = Inr (acc', st3)"
  from run_clients_sound [OF this] show "params st3 = params st" by blast
next
  assume "run_round L A round_idx st = Inr st'"
  from run_round_sound [OF this] obtain idxs g' cs acc conf_mat where r:
    "fed_trace st' = fed_trace st @ concat (map (client_events A (params st)) (zip idxs cs)) @
       [Predict (eval_dataset A) (eval_per_device_batch_size A) (params st'),
        PrintRound round_idx acc conf_mat]"
    by blast
  let ?evs = "concat (map (client_events A (params st)) (zip idxs cs)) @
       [Predict (eval_dataset A) (eval_per_device_batch_size A) (params st'),
        PrintRound round_idx acc conf_mat]"
  have "\<forall>p lr'. SetTrainState p lr' \<in> set ?evs \<longrightarrow> p = params st"
    by (auto simp: client_events_def)
  with r show "\<exists>evs. fed_trace st' = fed_trace st @ evs \<and>
         (\<forall>p lr'. SetTrainState p lr' \<in> set evs \<longrightarrow> p = params st)" by blast
qed

theorem server_params_unchanged_by_training_and_test_witness:
  "train_client demo_fed_lib [demo_example, demo_example, demo_example] (1 / 1000) 10 5
     (demo_fed_st\<lparr>np_random := \<lambda>i. Suc (Suc i)\<rparr>) =
   Inr ([(''w'', Array [2] [4, 5])],
        demo_fed_st\<lparr>np_random := \<lambda>i. Suc (Suc i), lib := [(''w'', Array [2] [4, 5])],
          fed_trace := take 4 demo_fed_trace\<rparr>) \<and>
   params (demo_fed_st\<lparr>np_random := \<lambda>i. Suc (Suc i), lib := [(''w'', Array [2] [4, 5])],
          fed_trace := take 4 demo_fed_trace\<rparr>) =
     params (demo_fed_st\<lparr>np_random := \<lambda>i. Suc (Suc i)\<rparr>) \<and>
   test demo_fed_lib [demo_example] 100
     (demo_fed_st\<lparr>np_random := \<lambda>i. Suc (Suc i), lib := [(''w'', Array [2] [3, 4])],
          fed_trace := demo_fed_trace, params := [(''w'', Array [2] [7 / 2, 9 / 2])]\<rparr>) =
   Inr ((1, 1), demo_fed_st'\<lparr>fed_trace := demo_fed_trace @
        [Predict [demo_example] 100 [(''w'', Array [2] [7 / 2, 9 / 2])]]\<rparr>) \<and>
   params (demo_fed_st'\<lparr>fed_trace := demo_fed_trace @
        [Predict [demo_example] 100 [(''w'', Array [2] [7 / 2, 9 / 2])]]\<rparr>) =
     [(''w'', Array [2] [7 / 2, 9 / 2])] \<and>
   run_clients demo_fed_lib demo_run_args [2, 1] (tree_map zeros_like demo_params)
     (demo_fed_st\<lparr>np_random := \<lambda>i. Suc (Suc i)\<rparr>) =
   Inr ([(''w'', Array [2] [7, 9])],
        demo_fed_st\<lparr>np_random := \<lambda>i. Suc (Suc i), lib := [(''w'', Array [2] [3, 4])],
          fed_trace := demo_fed_trace\<rparr>) \<and>
   params (demo_fed_st\<lparr>np_random := \<lambda>i. Suc (Suc i), lib := [(''w'', Array [2] [3, 4])],
          fed_trace := demo_fed_trace\<rparr>) = params demo_fed_st \<and>
   run_round demo_fed_lib demo_run_args 0 demo_fed_st = Inr demo_fed_st' \<and>
   (\<exists>evs. fed_trace demo_fed_st' = fed_trace demo_fed_st @ evs \<and>
      (\<forall>p lr'. SetTrainState p lr' \<in> set evs \<longrightarrow> p = params demo_fed_st))"
proof -
  note T = server_params_unchanged_by_training_and_test
  note a = T [where L = demo_fed_lib
      and examples = "[demo_example, demo_example, demo_example]"
      and lr = "1 / 1000" and batch_size = 10 and n_epochs = 5
      and st = "demo_fed_st\<lparr>np_random := \<lambda>i. Suc (Suc i)\<rparr>"
      and c = "[(''w'', Array [2] [4, 5])]"
      and ?st1.0 = "demo_fed_st\<lparr>np_random := \<lambda>i. Suc (Suc i),
             lib := [(''w'', Array [2] [4, 5])], fed_trace := take 4 demo_fed_trace\<rparr>"]
  note b = T [where L = demo_fed_lib and examples = "[demo_example]" and batch_size = 100
      and st = "demo_fed_st\<lparr>np_random := \<lambda>i. Suc (Suc i),
             lib := [(''w'', Array [2] [3, 4])], fed_trace := demo_fed_trace,
             params := [(''w'', Array [2] [7 / 2, 9 / 2])]\<rparr>"
      and res = "(1, 1)"
      and ?st2.0 = "demo_fed_st'\<lparr>fed_trace := demo_fed_trace @
             [Predict [demo_example] 100 [(''w'', Array [2] [7 / 2, 9 / 2])]]\<rparr>"]
  note c = T [where L = demo_fed_lib and A = demo_run_args and idxs = "[2, 1]"
      and acc = "tree_map zeros_like demo_params"
      and st = "demo_fed_st\<lparr>np_random := \<lambda>i. Suc (Suc i)\<rparr>"
      and acc' = "[(''w'', Array [2] [7, 9])]"
      and ?st3.0 = "demo_fed_st\<lparr>np_random := \<lambda>i. Suc (Suc i),
             lib := [(''w'', Array [2] [3, 4])], fed_trace := demo_fed_trace\<rparr>"]
  note d = T [where L = demo_fed_lib and A = demo_run_args and round_idx = 0
      and st = demo_fed_st and st' = demo_fed_st']
  from a demo_train_client_2 have 1:
    "params (demo_fed_st\<lparr>np_random := \<lambda>i. Suc (Suc i), lib := [(''w'', Array [2] [4, 5])],
          fed_trace := take 4 demo_fed_trace\<rparr>) =
     params (demo_fed_st\<lparr>np_random := \<lambda>i. Suc (Suc i)\<rparr>)" by blast
  from b demo_test have 2:
    "params (demo_fed_st'\<lparr>fed_trace := demo_fed_trace @
        [Predict [demo_example] 100 [(''w'', Array [2] [7 / 2, 9 / 2])]]\<rparr>) =
     [(''w'', Array [2] [7 / 2, 9 / 2])]" by simp
  from c demo_run_clients have 3:
    "params (demo_fed_st\<lparr>np_random := \<lambda>i. Suc (Suc i), lib := [(''w'', Array [2] [3, 4])],
          fed_trace := demo_fed_trace\<rparr>) = params demo_fed_st" by simp
  from d demo_run_round have 4:
    "\<exists>evs. fed_trace demo_fed_st' = fed_trace demo_fed_st @ evs \<and>
      (\<forall>p lr'. SetTrainState p lr' \<in> set evs \<longrightarrow> p = params demo_fed_st)" by blast
  from demo_train_client_2 1 demo_test 2 demo_run_clients 3 demo_run_round 4
  show ?thesis by (intro conjI)
qed

text \<open>
  Claim C2 as stated fails: a round of \<open>run\<close> rebinds \<open>self._params\<close> itself (lines 108 and
  109). In the round below the parameters of the server go from \<open>[1, 2]\<close> to
  \<open>[7/2, 9/2]\<close>, by the assignment of the repository, not by a call of the trainer.
\<close>

theorem server_params_rebound_by_run:
  "run_round demo_fed_lib demo_run_args 0 demo_fed_st = Inr demo_fed_st' \<and>
   params demo_fed_st' \<noteq> params demo_fed_st"
  using demo_run_round by (simp add: demo_fed_st'_def demo_fed_st_def demo_params_def)

section \<open>Properties of the GLUE example\<close>







end
